theory Spec2Isabelle
  imports Complex_Main "HOL-Library.Word" "HOL-Library.List_Lexorder"
begin

unbundle bit_operations_syntax

section \<open>Strings of the interpreter\<close>

text \<open>
  A Python \<open>str\<close> is a sequence of Unicode code points, so a string is a list of
  natural numbers: \<open>len\<close> is \<open>length\<close>, slicing is \<open>take\<close> and \<open>drop\<close>. The
  source writes two characters outside ASCII (the delta symbols U+2206 and U+0394), which
  a list of bytes would not hold as one character each.
\<close>

type_synonym ustring = "nat list"

definition ord :: "char \<Rightarrow> nat" where
  "ord c = of_char c"

definition str :: "string \<Rightarrow> ustring" where
  "str s = map ord s"

text \<open>
  \<open>str.strip\<close>, \<open>str.split\<close> and the class \<open>\s\<close> of \<open>re\<close> share one notion of white
  space, a fixed list of code points.
\<close>

definition isspace :: "nat \<Rightarrow> bool" where
  "isspace c \<longleftrightarrow>
     (9 \<le> c \<and> c \<le> 13) \<or> (28 \<le> c \<and> c \<le> 32) \<or> c = 133 \<or> c = 160 \<or> c = 5760 \<or>
     (8192 \<le> c \<and> c \<le> 8202) \<or> c = 8232 \<or> c = 8233 \<or> c = 8239 \<or> c = 8287 \<or> c = 12288"

text \<open>
  \<open>int\<close> and \<open>float\<close> drop white space around a numeral too, but of the characters
  below U+0080 only the tab, the line feed, the vertical tab, the form feed, the carriage
  return and the space: the four separators U+001C to U+001F, which \<open>str.strip\<close> drops,
  are no part of a numeral for them.
\<close>

definition isspace_numeral :: "nat \<Rightarrow> bool" where
  "isspace_numeral c \<longleftrightarrow> isspace c \<and> \<not> (28 \<le> c \<and> c \<le> 31)"

text \<open>
  The classes \<open>\d\<close> and \<open>\w\<close> of a \<open>str\<close> pattern, and the digits \<open>int\<close> and \<open>float\<close>
  accept, follow the interpreter's Unicode character database. On ASCII they are fixed
  here; above ASCII the database is a parameter of the model: \<open>uni_decimal\<close> gives the
  value of a decimal digit, \<open>uni_alnum\<close> says whether a code point is alphanumeric.
\<close>

record unicode_db =
  uni_decimal :: "nat \<Rightarrow> nat option"
  uni_alnum :: "nat \<Rightarrow> bool"

definition digit_value :: "unicode_db \<Rightarrow> nat \<Rightarrow> nat option" where
  "digit_value U c =
     (if c < 128 then (if 48 \<le> c \<and> c \<le> 57 then Some (c - 48) else None)
      else uni_decimal U c)"

definition isdecimal :: "unicode_db \<Rightarrow> nat \<Rightarrow> bool" where
  "isdecimal U c \<longleftrightarrow> digit_value U c \<noteq> None"

definition isword :: "unicode_db \<Rightarrow> nat \<Rightarrow> bool" where
  "isword U c \<longleftrightarrow>
     (if c < 128 then (48 \<le> c \<and> c \<le> 57) \<or> (65 \<le> c \<and> c \<le> 90) \<or> (97 \<le> c \<and> c \<le> 122) \<or> c = 95
      else uni_alnum U c \<or> uni_decimal U c \<noteq> None)"

text \<open>
  A database that classifies nothing above ASCII. It agrees with the interpreter on every
  character of the concrete lines evaluated below (ASCII, and the delta symbol U+2206,
  which is a mathematical symbol: no digit, no letter, no white space).
\<close>

definition ascii_db :: unicode_db where
  "ascii_db = \<lparr>uni_decimal = (\<lambda>c. None), uni_alnum = (\<lambda>c. False)\<rparr>"


definition strip :: "ustring \<Rightarrow> ustring" where
  "strip s = rev (dropWhile isspace (rev (dropWhile isspace s)))"

definition strip_numeral :: "ustring \<Rightarrow> ustring" where
  "strip_numeral s = rev (dropWhile isspace_numeral (rev (dropWhile isspace_numeral s)))"

text \<open>\<open>s.split()\<close>: the maximal runs of characters that are not white space.\<close>

fun split_acc :: "ustring \<Rightarrow> ustring \<Rightarrow> ustring list" where
  "split_acc cur [] = (if cur = [] then [] else [cur])"
| "split_acc cur (c # cs) =
     (if isspace c then (if cur = [] then split_acc [] cs else cur # split_acc [] cs)
      else split_acc (cur @ [c]) cs)"

definition split :: "ustring \<Rightarrow> ustring list" where
  "split s = split_acc [] s"

fun join :: "ustring \<Rightarrow> ustring list \<Rightarrow> ustring" where
  "join sep [] = []"
| "join sep [x] = x"
| "join sep (x # y # ys) = x @ sep @ join sep (y # ys)"

definition startswith :: "ustring \<Rightarrow> ustring \<Rightarrow> bool" where
  "startswith s p \<longleftrightarrow> take (length p) s = p"

text \<open>
  \<open>s.replace(old, new)\<close> replaces the occurrences of \<open>old\<close> from left to right, without
  overlap; an empty \<open>old\<close> matches before every character and at the end.
\<close>

function replace :: "ustring \<Rightarrow> ustring \<Rightarrow> ustring \<Rightarrow> ustring" where
  "replace [] new s = new @ concat (map (\<lambda>c. c # new) s)"
| "replace (a # as) new [] = []"
| "replace (a # as) new (c # cs) =
     (if take (Suc (length as)) (c # cs) = a # as
      then new @ replace (a # as) new (drop (length as) cs)
      else c # replace (a # as) new cs)"
  by pat_completeness auto
termination
  by (relation "measure (\<lambda>(old, new, s). length s)") auto

section \<open>Regular expressions\<close>

text \<open>
  The part of the pattern language of \<open>re\<close> that the source's patterns use, with the
  backtracking order of the library: a match is searched depth first, the left branch of
  an alternation before the right one, a greedy repetition trying one more round before
  it stops and a lazy one stopping before it tries one more round.
\<close>

datatype citem = Ch nat | Rng nat nat | ClsS | ClsD | ClsW

datatype regex =
    Lit nat
  | CSet bool "citem list"
  | Dot
  | Bol
  | Eol
  | WordB
  | Empty
  | Cat regex regex
  | Alt regex regex
  | Rep regex nat "nat option" bool
  | Grp nat regex

text \<open>
  \<open>CSet False items\<close> is \<open>[items]\<close> and \<open>CSet True items\<close> is \<open>[^items]\<close>;
  \<open>Rep r lo hi greedy\<close> is \<open>r{lo,hi}\<close>, with \<open>hi = None\<close> for no upper bound;
  \<open>Grp n r\<close> is the \<open>n\<close>-th capturing group.
\<close>

fun in_item :: "unicode_db \<Rightarrow> citem \<Rightarrow> nat \<Rightarrow> bool" where
  "in_item U (Ch a) c = (c = a)"
| "in_item U (Rng a b) c = (a \<le> c \<and> c \<le> b)"
| "in_item U ClsS c = isspace c"
| "in_item U ClsD c = isdecimal U c"
| "in_item U ClsW c = isword U c"

definition in_cset :: "unicode_db \<Rightarrow> bool \<Rightarrow> citem list \<Rightarrow> nat \<Rightarrow> bool" where
  "in_cset U neg items c \<longleftrightarrow> (list_ex (\<lambda>i. in_item U i c) items \<noteq> neg)"

text \<open>
  A state of the matcher is the position reached and the groups captured so far, the
  latest capture of a group first.
\<close>

type_synonym mstate = "nat \<times> (nat \<times> nat \<times> nat) list"

definition word_at :: "unicode_db \<Rightarrow> ustring \<Rightarrow> nat \<Rightarrow> bool" where
  "word_at U s i \<longleftrightarrow> i < length s \<and> isword U (s ! i)"

definition at_boundary :: "unicode_db \<Rightarrow> ustring \<Rightarrow> nat \<Rightarrow> bool" where
  "at_boundary U s i \<longleftrightarrow> ((0 < i \<and> word_at U s (i - 1)) \<noteq> word_at U s i)"

text \<open>
  The rounds of a repetition. Every round must advance (the bodies of the repetitions in
  the source's patterns never match the empty string), so the characters left bound the
  number of rounds; the first argument counts them down.
\<close>

fun rep :: "(mstate \<Rightarrow> mstate list) \<Rightarrow> bool \<Rightarrow> nat \<Rightarrow> nat \<Rightarrow> nat option \<Rightarrow> mstate \<Rightarrow> mstate list" where
  "rep f greedy 0 lo hi st = (if lo = 0 then [st] else [])"
| "rep f greedy (Suc k) lo hi st =
     (let more = (if hi = Some 0 then []
                  else concat (map (rep f greedy k (lo - 1) (map_option (\<lambda>h. h - 1) hi))
                                   (filter (\<lambda>st'. fst st < fst st') (f st))));
          stop = (if lo = 0 then [st] else [])
      in if greedy then more @ stop else stop @ more)"

primrec rx :: "regex \<Rightarrow> unicode_db \<Rightarrow> ustring \<Rightarrow> mstate \<Rightarrow> mstate list" where
  "rx (Lit c) U s st =
     (if fst st < length s \<and> s ! fst st = c then [(Suc (fst st), snd st)] else [])"
| "rx (CSet neg items) U s st =
     (if fst st < length s \<and> in_cset U neg items (s ! fst st) then [(Suc (fst st), snd st)] else [])"
| "rx Dot U s st =
     (if fst st < length s \<and> s ! fst st \<noteq> 10 then [(Suc (fst st), snd st)] else [])"
| "rx Bol U s st = (if fst st = 0 then [st] else [])"
| "rx Eol U s st =
     (if fst st = length s \<or> (Suc (fst st) = length s \<and> s ! fst st = 10) then [st] else [])"
| "rx WordB U s st = (if at_boundary U s (fst st) then [st] else [])"
| "rx Empty U s st = [st]"
| "rx (Cat a b) U s st = concat (map (rx b U s) (rx a U s st))"
| "rx (Alt a b) U s st = rx a U s st @ rx b U s st"
| "rx (Rep r lo hi greedy) U s st = rep (rx r U s) greedy (Suc (length s - fst st)) lo hi st"
| "rx (Grp n r) U s st =
     map (\<lambda>st'. (fst st', (n, fst st, fst st') # snd st')) (rx r U s st)"

definition seq :: "regex list \<Rightarrow> regex" where
  "seq rs = foldr Cat rs Empty"

definition lit :: "string \<Rightarrow> regex" where
  "lit s = seq (map (\<lambda>c. Lit (ord c)) s)"

definition star :: "regex \<Rightarrow> regex" where
  "star r = Rep r 0 None True"

definition plus :: "regex \<Rightarrow> regex" where
  "plus r = Rep r 1 None True"

definition opt :: "regex \<Rightarrow> regex" where
  "opt r = Rep r 0 (Some 1) True"


text \<open>
  A match object: the string searched, where the match starts and ends, and the groups.
  \<open>group m n\<close> is \<open>m.group(n)\<close>, \<open>None\<close> for a group that took no part in the match.
\<close>

record rmatch =
  re_string :: ustring
  re_start :: nat
  re_end :: nat
  re_groups :: "(nat \<times> nat \<times> nat) list"

definition group :: "rmatch \<Rightarrow> nat \<Rightarrow> ustring option" where
  "group m n =
     (case map_of (re_groups m) n of
        None \<Rightarrow> None
      | Some (i, j) \<Rightarrow> Some (take (j - i) (drop i (re_string m))))"

definition match_at :: "unicode_db \<Rightarrow> regex \<Rightarrow> ustring \<Rightarrow> nat \<Rightarrow> rmatch option" where
  "match_at U r s i =
     (case rx r U s (i, []) of
        [] \<Rightarrow> None
      | st # _ \<Rightarrow> Some \<lparr>re_string = s, re_start = i, re_end = fst st, re_groups = snd st\<rparr>)"

definition re_match :: "unicode_db \<Rightarrow> regex \<Rightarrow> ustring \<Rightarrow> rmatch option" where
  "re_match U r s = match_at U r s 0"

definition re_fullmatch :: "unicode_db \<Rightarrow> regex \<Rightarrow> ustring \<Rightarrow> bool" where
  "re_fullmatch U r s \<longleftrightarrow> list_ex (\<lambda>st. fst st = length s) (rx r U s (0, []))"

text \<open>\<open>re.search\<close>: the match at the leftmost position that has one.\<close>

fun scan :: "nat \<Rightarrow> unicode_db \<Rightarrow> regex \<Rightarrow> ustring \<Rightarrow> nat \<Rightarrow> rmatch option" where
  "scan 0 U r s i = None"
| "scan (Suc k) U r s i =
     (case match_at U r s i of Some m \<Rightarrow> Some m | None \<Rightarrow> scan k U r s (Suc i))"

definition re_search_from :: "unicode_db \<Rightarrow> regex \<Rightarrow> ustring \<Rightarrow> nat \<Rightarrow> rmatch option" where
  "re_search_from U r s i = scan (Suc (length s) - i) U r s i"

definition re_search :: "unicode_db \<Rightarrow> regex \<Rightarrow> ustring \<Rightarrow> rmatch option" where
  "re_search U r s = re_search_from U r s 0"

text \<open>
  \<open>finditer\<close>: the matches from left to right, each search starting where the match
  before ended (after an empty match, one character further).
\<close>

fun finditer_from :: "nat \<Rightarrow> unicode_db \<Rightarrow> regex \<Rightarrow> ustring \<Rightarrow> nat \<Rightarrow> rmatch list" where
  "finditer_from 0 U r s i = []"
| "finditer_from (Suc k) U r s i =
     (case re_search_from U r s i of
        None \<Rightarrow> []
      | Some m \<Rightarrow>
          m # finditer_from k U r s (if re_end m = re_start m then Suc (re_end m) else re_end m))"

definition finditer :: "unicode_db \<Rightarrow> regex \<Rightarrow> ustring \<Rightarrow> rmatch list" where
  "finditer U r s = finditer_from (Suc (length s)) U r s 0"

section \<open>Conversions\<close>

datatype exn =
  ValueError | TypeError | AttributeError | IndexError | UnicodeEncodeError | ZeroDivisionError

text \<open>
  \<open>int(s)\<close> for a string: white space around the numeral is dropped, a sign may lead, and
  the digits may be separated by single underscores. Anything else raises
  \<open>ValueError\<close>, and so does a numeral of more digits than the interpreter's limit on
  conversions between \<open>str\<close> and \<open>int\<close>, which is 4300 unless the process sets another
  one; the underscores, the sign and the white space do not count as digits.
\<close>

definition int_max_str_digits :: nat where
  "int_max_str_digits = 4300"

fun digitpart :: "unicode_db \<Rightarrow> int \<Rightarrow> ustring \<Rightarrow> int option" where
  "digitpart U acc [] = Some acc"
| "digitpart U acc [c] = map_option (\<lambda>v. acc * 10 + int v) (digit_value U c)"
| "digitpart U acc (c # d # ds) =
     (if c = 95
      then (case digit_value U d of None \<Rightarrow> None | Some v \<Rightarrow> digitpart U (acc * 10 + int v) ds)
      else (case digit_value U c of None \<Rightarrow> None | Some v \<Rightarrow> digitpart U (acc * 10 + int v) (d # ds)))"

definition unsigned :: "unicode_db \<Rightarrow> ustring \<Rightarrow> int option" where
  "unsigned U s =
     (case s of
        [] \<Rightarrow> None
      | c # cs \<Rightarrow> (case digit_value U c of None \<Rightarrow> None | Some v \<Rightarrow> digitpart U (int v) cs))"

definition py_int :: "unicode_db \<Rightarrow> ustring \<Rightarrow> exn + int" where
  "py_int U s =
     (let t = strip_numeral s;
          neg = (t \<noteq> [] \<and> hd t = 45);
          body = (if t \<noteq> [] \<and> (hd t = 43 \<or> hd t = 45) then tl t else t)
      in case unsigned U body of
           None \<Rightarrow> Inl ValueError
         | Some n \<Rightarrow>
             if int_max_str_digits < length (filter (\<lambda>c. c \<noteq> 95) body) then Inl ValueError
             else Inr (if neg then - n else n))"

text \<open>\<open>int(m.group(n))\<close>: a group that took no part is \<open>None\<close>, and \<open>int(None)\<close> raises.\<close>

definition int_of_group :: "unicode_db \<Rightarrow> ustring option \<Rightarrow> exn + int" where
  "int_of_group U g = (case g of None \<Rightarrow> Inl TypeError | Some s \<Rightarrow> py_int U s)"

text \<open>
  \<open>float(s)\<close> accepts, between white space, the numerals of this grammar (the language
  reference's \<open>floatvalue\<close>), letters in either case. The float it returns is carried as
  the numeral that denotes it: the rounding to a binary float is not modelled.
\<close>

definition sign_re :: regex where
  "sign_re = CSet False [Ch (ord CHR ''+''), Ch (ord CHR ''-'')]"

definition digitpart_re :: regex where
  "digitpart_re = seq [CSet False [ClsD], star (seq [opt (Lit (ord CHR ''_'')), CSet False [ClsD]])]"

definition caseless :: "string \<Rightarrow> string \<Rightarrow> regex" where
  "caseless lower upper = seq (map (\<lambda>(a, b). CSet False [Ch (ord a), Ch (ord b)]) (zip lower upper))"

definition FLOAT_GRAMMAR :: regex where
  "FLOAT_GRAMMAR =
     seq [opt sign_re,
          Alt (seq [Alt (seq [opt digitpart_re, Lit (ord CHR ''.''), digitpart_re])
                        (seq [digitpart_re, opt (Lit (ord CHR ''.''))]),
                    opt (seq [CSet False [Ch (ord CHR ''e''), Ch (ord CHR ''E'')], opt sign_re, digitpart_re])])
         (Alt (caseless ''infinity'' ''INFINITY'')
         (Alt (caseless ''inf'' ''INF'')
              (caseless ''nan'' ''NAN'')))]"

datatype pyfloat = Float ustring

definition py_float :: "unicode_db \<Rightarrow> ustring \<Rightarrow> exn + pyfloat" where
  "py_float U s =
     (if re_fullmatch U FLOAT_GRAMMAR (strip_numeral s) then Inr (Float (strip_numeral s))
      else Inl ValueError)"

section \<open>The records of the parser\<close>

text \<open>
  The parser returns a dictionary whose \<open>type\<close> entry says what the line was. The
  dictionaries of one type have the same keys, so each is a record here. A field holds
  what the source puts there: \<open>m.group(n)\<close> is a string or \<open>None\<close>, and the variable
  \<open>value\<close> of \<open>_parse_metric\<close> is a float first and a string or \<open>None\<close> once the loop over
  the tags has assigned to it.
\<close>

datatype pyval = PyFloat pyfloat | PyStr ustring | PyNone

type_synonym tagdict = "(ustring option \<times> ustring) list"

record metric =
  m_metric :: "ustring option"
  m_value :: pyval
  m_timestamp :: "int option"
  m_source :: "ustring option"
  m_tags :: tagdict
  m_is_delta :: bool
  m_line_length :: nat

record centroid =
  c_count :: int
  c_value :: pyfloat

record histogram =
  h_granularity :: "ustring option"
  h_timestamp :: "int option"
  h_count :: int
  h_centroids :: "centroid list"
  h_line_length :: nat

record span =
  s_operation :: "ustring option"
  s_source :: "ustring option"
  s_span_tags :: tagdict
  s_start_ms :: int
  s_duration_ms :: int

datatype wf_record =
    Metric metric
  | Histogram histogram
  | Span span
  | ParseError ustring exn

section \<open>WavefrontParser\<close>

text \<open>The body of a quoted name or value: \<^verbatim>\<open>[^"\\]*(?:\\.[^"\\]*)*\<close>.\<close>

definition quoted_body :: regex where
  "quoted_body =
     seq [star (CSet True [Ch 34, Ch 92]),
          star (seq [Lit 92, Dot, star (CSet True [Ch 34, Ch 92])])]"

text \<open>\<^verbatim>\<open>^"([^"\\]*(?:\\.[^"\\]*)*)"|([a-zA-Z0-9][a-zA-Z0-9._-]*)\<close>\<close>

definition METRIC_NAME_PATTERN :: regex where
  "METRIC_NAME_PATTERN =
     Alt (seq [Bol, Lit 34, Grp 1 quoted_body, Lit 34])
         (Grp 2 (seq [CSet False [Rng (ord CHR ''a'') (ord CHR ''z''), Rng (ord CHR ''A'') (ord CHR ''Z''),
                                  Rng (ord CHR ''0'') (ord CHR ''9'')],
                      star (CSet False [Rng (ord CHR ''a'') (ord CHR ''z''), Rng (ord CHR ''A'') (ord CHR ''Z''),
                                        Rng (ord CHR ''0'') (ord CHR ''9''), Ch (ord CHR ''.''),
                                        Ch (ord CHR ''_''), Ch (ord CHR ''-'')])]))"

text \<open>\<^verbatim>\<open>^(!M|!H|!D)\s+(\d+)?\s+#(\d+)\s+(.*)\<close>\<close>

definition HISTOGRAM_PATTERN :: regex where
  "HISTOGRAM_PATTERN =
     seq [Bol, Grp 1 (Alt (lit ''!M'') (Alt (lit ''!H'') (lit ''!D''))),
          plus (CSet False [ClsS]), opt (Grp 2 (plus (CSet False [ClsD]))),
          plus (CSet False [ClsS]), Lit (ord CHR ''#''), Grp 3 (plus (CSet False [ClsD])),
          plus (CSet False [ClsS]), Grp 4 (star Dot)]"

text \<open>\<^verbatim>\<open>^[..](.+)\<close>, the set holding the two delta symbols U+2206 and U+0394.\<close>

definition DELTA_PATTERN :: regex where
  "DELTA_PATTERN = seq [Bol, CSet False [Ch 8710, Ch 916], Grp 1 (plus Dot)]"

text \<open>\<^verbatim>\<open>(\w+)=(?:"([^"\\]*(?:\\.[^"\\]*)*)"|([^\s]+))\<close>\<close>

definition TAG_PATTERN :: regex where
  "TAG_PATTERN =
     seq [Grp 1 (plus (CSet False [ClsW])), Lit (ord CHR ''=''),
          Alt (seq [Lit 34, Grp 2 quoted_body, Lit 34])
              (Grp 3 (plus (CSet True [ClsS])))]"

text \<open>\<^verbatim>\<open>^(\S+)\s+source=(\S+)\s+(.*?)\s+(\d+)\s+(\d+)$\<close>\<close>

definition SPAN_PATTERN :: regex where
  "SPAN_PATTERN =
     seq [Bol, Grp 1 (plus (CSet True [ClsS])), plus (CSet False [ClsS]), lit ''source='',
          Grp 2 (plus (CSet True [ClsS])), plus (CSet False [ClsS]),
          Grp 3 (Rep Dot 0 None False), plus (CSet False [ClsS]),
          Grp 4 (plus (CSet False [ClsD])), plus (CSet False [ClsS]),
          Grp 5 (plus (CSet False [ClsD])), Eol]"

text \<open>
  The two patterns \<open>_parse_metric\<close> writes in place:
  \<^verbatim>\<open>source=(?:"([^"\\]*(?:\\.[^"\\]*)*)"|([^\s]+))\<close> and \<^verbatim>\<open>\b(\d{10})\b\<close>.
\<close>

definition source_pattern :: regex where
  "source_pattern =
     seq [lit ''source='',
          Alt (seq [Lit 34, Grp 1 quoted_body, Lit 34])
              (Grp 2 (plus (CSet True [ClsS])))]"

definition timestamp_pattern :: regex where
  "timestamp_pattern = seq [WordB, Grp 1 (Rep (CSet False [ClsD]) 10 (Some 10) True), WordB]"

text \<open>
  Truth of a string or \<open>None\<close>, and \<open>a or b\<close>: \<open>None\<close> and the empty string are false.
\<close>

definition truthy :: "ustring option \<Rightarrow> bool" where
  "truthy x \<longleftrightarrow> x \<noteq> None \<and> x \<noteq> Some []"

definition py_or :: "ustring option \<Rightarrow> ustring option \<Rightarrow> ustring option" where
  "py_or a b = (if truthy a then a else b)"

text \<open>\<open>d[k] = v\<close> on a dictionary, which keeps its keys in the order of their first insertion.\<close>

fun dict_set :: "('k \<times> 'v) list \<Rightarrow> 'k \<Rightarrow> 'v \<Rightarrow> ('k \<times> 'v) list" where
  "dict_set [] k v = [(k, v)]"
| "dict_set (e # d) k v = (if fst e = k then (k, v) # d else e # dict_set d k v)"

text \<open>
  One round of the loop over the tag matches, the same in \<open>_parse_metric\<close> and
  \<open>_parse_span\<close>. Its state is the variable \<open>value\<close> and the dictionary \<open>tags\<close>.
\<close>

definition unescape :: "ustring \<Rightarrow> ustring" where
  "unescape v = replace [92, 92] [92] (replace [92, 34] [34] v)"

definition tag_step :: "pyval \<times> tagdict \<Rightarrow> rmatch \<Rightarrow> pyval \<times> tagdict" where
  "tag_step st tag_match =
     (let key = group tag_match 1;
          val = py_or (group tag_match 2) (group tag_match 3)
      in case val of
           None \<Rightarrow> (PyNone, snd st)
         | Some v \<Rightarrow>
             if v = [] then (PyStr v, snd st)
             else (let v' = (if truthy (group tag_match 2) then unescape v else v)
                   in (PyStr v', dict_set (snd st) key v')))"

definition tag_loop :: "unicode_db \<Rightarrow> pyval \<Rightarrow> ustring \<Rightarrow> pyval \<times> tagdict" where
  "tag_loop U val text = foldl tag_step (val, []) (finditer U TAG_PATTERN text)"

text \<open>\<open>text[:m.start()] + text[m.end():]\<close>\<close>

definition cut :: "rmatch \<Rightarrow> ustring \<Rightarrow> ustring" where
  "cut m text = take (re_start m) text @ drop (re_end m) text"

text \<open>
  \<open>_parse_metric\<close>, in two parts: up to the value, and from the line
  \<open>remaining = ' '.join(parts[2:])\<close> on. \<open>Inr None\<close> is \<open>return None\<close>, \<open>Inl e\<close> an
  exception that leaves the function.
\<close>

definition parse_metric_rest ::
  "unicode_db \<Rightarrow> ustring \<Rightarrow> ustring list \<Rightarrow> ustring option \<Rightarrow> bool \<Rightarrow> pyfloat \<Rightarrow> exn + wf_record option" where
  "parse_metric_rest U line parts metric_name is_delta val =
     (let remaining = join [32] (drop 2 parts) in
      case re_search U source_pattern remaining of
        None \<Rightarrow> Inr None
      | Some source_match \<Rightarrow>
          (let source = py_or (group source_match 1) (group source_match 2);
               remaining = cut source_match remaining
           in case (case re_search U timestamp_pattern remaining of
                      None \<Rightarrow> Inr (None, remaining)
                    | Some timestamp_match \<Rightarrow>
                        (case int_of_group U (group timestamp_match 1) of
                           Inl e \<Rightarrow> Inl e
                         | Inr t \<Rightarrow> Inr (Some t, cut timestamp_match remaining))) of
                Inl e \<Rightarrow> Inl e
              | Inr (timestamp, remaining) \<Rightarrow>
                  (let (val', tags) = tag_loop U (PyFloat val) remaining
                   in Inr (Some (Metric
                        \<lparr>m_metric = metric_name, m_value = val', m_timestamp = timestamp,
                         m_source = source, m_tags = tags, m_is_delta = is_delta,
                         m_line_length = length line\<rparr>)))))"

definition parse_metric :: "unicode_db \<Rightarrow> ustring \<Rightarrow> exn + wf_record option" where
  "parse_metric U line =
     (let parts = split line in
      if length parts < 3 then Inr None
      else case re_match U METRIC_NAME_PATTERN (parts ! 0) of
        None \<Rightarrow> Inr None
      | Some metric_match \<Rightarrow>
          (case py_or (group metric_match 1) (group metric_match 2) of
             None \<Rightarrow> Inl TypeError
           | Some metric_name \<Rightarrow>
               (let delta_match = re_match U DELTA_PATTERN metric_name;
                    is_delta = (delta_match \<noteq> None);
                    metric_name = (case delta_match of
                                     None \<Rightarrow> Some metric_name
                                   | Some dm \<Rightarrow> group dm 1)
                in case py_float U (parts ! 1) of
                     Inl e \<Rightarrow> (if e = ValueError then Inr None else Inl e)
                   | Inr val \<Rightarrow> parse_metric_rest U line parts metric_name is_delta val)))"

text \<open>
  The loop of \<open>_parse_histogram\<close> over \<open>centroid_parts\<close>: the index advances by two, so
  the loop is a recursion over the tokens left. It stops, keeping what it has, at a token
  with no partner and at a pair that \<open>int\<close> or \<open>float\<close> refuses.
\<close>

fun centroids_loop :: "unicode_db \<Rightarrow> ustring list \<Rightarrow> centroid list" where
  "centroids_loop U (a # b # rest) =
     (case py_int U a of
        Inl e \<Rightarrow> []
      | Inr n \<Rightarrow>
          (case py_float U b of
             Inl e \<Rightarrow> []
           | Inr v \<Rightarrow> \<lparr>c_count = n, c_value = v\<rparr> # centroids_loop U rest))"
| "centroids_loop U parts = []"

definition parse_histogram :: "unicode_db \<Rightarrow> rmatch \<Rightarrow> ustring \<Rightarrow> exn + wf_record option" where
  "parse_histogram U histo_match full_line =
     (let granularity = group histo_match 1 in
      case (if truthy (group histo_match 2)
            then map_sum id Some (int_of_group U (group histo_match 2))
            else Inr None) of
        Inl e \<Rightarrow> Inl e
      | Inr timestamp \<Rightarrow>
          (case int_of_group U (group histo_match 3) of
             Inl e \<Rightarrow> Inl e
           | Inr count \<Rightarrow>
               (case group histo_match 4 of
                  None \<Rightarrow> Inl AttributeError
                | Some centroids_str \<Rightarrow>
                    Inr (Some (Histogram
                      \<lparr>h_granularity = granularity, h_timestamp = timestamp, h_count = count,
                       h_centroids = centroids_loop U (split centroids_str),
                       h_line_length = length full_line\<rparr>)))))"

definition parse_span :: "unicode_db \<Rightarrow> rmatch \<Rightarrow> exn + wf_record option" where
  "parse_span U span_match =
     (let operation = group span_match 1;
          source = group span_match 2;
          tags_str = group span_match 3
      in case int_of_group U (group span_match 4) of
           Inl e \<Rightarrow> Inl e
         | Inr start_ms \<Rightarrow>
             (case int_of_group U (group span_match 5) of
                Inl e \<Rightarrow> Inl e
              | Inr duration_ms \<Rightarrow>
                  (case tags_str of
                     None \<Rightarrow> Inl TypeError
                   | Some text \<Rightarrow>
                       Inr (Some (Span
                         \<lparr>s_operation = operation, s_source = source,
                          s_span_tags = snd (tag_loop U PyNone text),
                          s_start_ms = start_ms, s_duration_ms = duration_ms\<rparr>)))))"

text \<open>
  The body of the \<open>try\<close> of \<open>parse_line\<close>, and \<open>parse_line\<close>: the handler turns every
  exception of the body into an error record with the first 100 characters of the line.
\<close>

definition parse_body :: "unicode_db \<Rightarrow> ustring \<Rightarrow> exn + wf_record option" where
  "parse_body U line =
     (case re_match U HISTOGRAM_PATTERN line of
        Some histo_match \<Rightarrow> parse_histogram U histo_match line
      | None \<Rightarrow>
          (case re_match U SPAN_PATTERN line of
             Some span_match \<Rightarrow> parse_span U span_match
           | None \<Rightarrow> parse_metric U line))"

definition parse_line :: "unicode_db \<Rightarrow> ustring \<Rightarrow> wf_record option" where
  "parse_line U raw =
     (let line = strip raw in
      if line = [] \<or> startswith line [35] then None
      else case parse_body U line of
             Inl e \<Rightarrow> Some (ParseError (take 100 line) e)
           | Inr r \<Rightarrow> r)"

text \<open>The \<open>type\<close> entry of a record, and the tags it carries.\<close>

fun record_type :: "wf_record \<Rightarrow> string" where
  "record_type (Metric m) = ''metric''"
| "record_type (Histogram h) = ''histogram''"
| "record_type (Span s) = ''span''"
| "record_type (ParseError l e) = ''error''"

fun record_tags :: "wf_record \<Rightarrow> tagdict" where
  "record_tags (Metric m) = m_tags m"
| "record_tags (Span s) = s_span_tags s"
| "record_tags r = []"

section \<open>Family identifiers\<close>

text \<open>
  \<open>str.encode('utf-8')\<close>: one to four bytes for a code point. A surrogate has no
  encoding and raises; a number from 1114112 on is no code point of a \<open>str\<close>.
\<close>

type_synonym byte = "8 word"

definition utf8_char :: "nat \<Rightarrow> byte list option" where
  "utf8_char c =
     (if c < 128 then Some [of_nat c]
      else if c < 2048 then Some [of_nat (192 + c div 64), of_nat (128 + c mod 64)]
      else if 55296 \<le> c \<and> c < 57344 then None
      else if c < 65536 then
        Some [of_nat (224 + c div 4096), of_nat (128 + c div 64 mod 64), of_nat (128 + c mod 64)]
      else if c < 1114112 then
        Some [of_nat (240 + c div 262144), of_nat (128 + c div 4096 mod 64),
              of_nat (128 + c div 64 mod 64), of_nat (128 + c mod 64)]
      else None)"

fun encode_utf8 :: "ustring \<Rightarrow> exn + byte list" where
  "encode_utf8 [] = Inr []"
| "encode_utf8 (c # cs) =
     (case utf8_char c of
        None \<Rightarrow> Inl UnicodeEncodeError
      | Some bs \<Rightarrow> (case encode_utf8 cs of Inl e \<Rightarrow> Inl e | Inr rest \<Rightarrow> Inr (bs @ rest)))"

text \<open>
  \<open>hashlib.sha1\<close>, the Secure Hash Algorithm 1 of FIPS 180: the message is padded to a
  multiple of 64 bytes, and each block of 16 words, expanded to 80, drives 80 rounds on
  five words of state. \<open>hexdigest\<close> writes the five words in lower-case hexadecimal.
\<close>

type_synonym digest = "32 word \<times> 32 word \<times> 32 word \<times> 32 word \<times> 32 word"

definition be64 :: "nat \<Rightarrow> byte list" where
  "be64 n = map (\<lambda>i. of_nat (n div 256 ^ (7 - i))) [0..<8]"

definition sha1_pad :: "byte list \<Rightarrow> byte list" where
  "sha1_pad m = m @ [128] @ replicate ((119 - length m mod 64) mod 64) 0 @ be64 (8 * length m)"

fun be32 :: "byte list \<Rightarrow> 32 word list" where
  "be32 (a # b # c # d # rest) =
     (push_bit 24 (ucast a) OR push_bit 16 (ucast b) OR push_bit 8 (ucast c) OR ucast d) # be32 rest"
| "be32 bs = []"

fun schedule :: "nat \<Rightarrow> 32 word list \<Rightarrow> 32 word list" where
  "schedule 0 w = w"
| "schedule (Suc n) w =
     (let t = length w
      in schedule n (w @ [word_rotl 1 (w ! (t - 3) XOR w ! (t - 8) XOR w ! (t - 14) XOR w ! (t - 16))]))"

definition sha1_f :: "nat \<Rightarrow> 32 word \<Rightarrow> 32 word \<Rightarrow> 32 word \<Rightarrow> 32 word" where
  "sha1_f t b c d =
     (if t < 20 then (b AND c) OR (NOT b AND d)
      else if t < 40 then b XOR c XOR d
      else if t < 60 then (b AND c) OR (b AND d) OR (c AND d)
      else b XOR c XOR d)"

definition sha1_k :: "nat \<Rightarrow> 32 word" where
  "sha1_k t =
     (if t < 20 then 0x5A827999 else if t < 40 then 0x6ED9EBA1
      else if t < 60 then 0x8F1BBCDC else 0xCA62C1D6)"

definition sha1_round :: "32 word list \<Rightarrow> digest \<Rightarrow> nat \<Rightarrow> digest" where
  "sha1_round w st t =
     (case st of (a, b, c, d, e) \<Rightarrow>
        (word_rotl 5 a + sha1_f t b c d + e + sha1_k t + w ! t, a, word_rotl 30 b, c, d))"

definition sha1_block :: "digest \<Rightarrow> byte list \<Rightarrow> digest" where
  "sha1_block h block =
     (case h of (h0, h1, h2, h3, h4) \<Rightarrow>
        (case foldl (sha1_round (schedule 64 (be32 block))) h [0..<80] of
           (a, b, c, d, e) \<Rightarrow> (h0 + a, h1 + b, h2 + c, h3 + d, h4 + e)))"

fun blocks :: "nat \<Rightarrow> byte list \<Rightarrow> byte list list" where
  "blocks 0 bs = []"
| "blocks (Suc n) bs = take 64 bs # blocks n (drop 64 bs)"

definition sha1 :: "byte list \<Rightarrow> digest" where
  "sha1 m =
     (let p = sha1_pad m
      in foldl sha1_block (0x67452301, 0xEFCDAB89, 0x98BADCFE, 0x10325476, 0xC3D2E1F0)
           (blocks (length p div 64) p))"

definition hex_digit :: "nat \<Rightarrow> nat" where
  "hex_digit n = (if n < 10 then 48 + n else 87 + n)"

definition hex32 :: "32 word \<Rightarrow> ustring" where
  "hex32 w = map (\<lambda>i. hex_digit (unat w div 16 ^ (7 - i) mod 16)) [0..<8]"

definition hexdigest :: "digest \<Rightarrow> ustring" where
  "hexdigest h =
     (case h of (h0, h1, h2, h3, h4) \<Rightarrow> hex32 h0 @ hex32 h1 @ hex32 h2 @ hex32 h3 @ hex32 h4)"

text \<open>
  \<open>compute_family_id\<close> of \<open>_add_family_id\<close>. The dictionary \<open>tags\<close> is the list of its
  items; \<open>sorted\<close> orders strings by their code points, as the lexicographic order on
  lists of numbers does.
\<close>

definition compute_family_id :: "ustring \<Rightarrow> (ustring \<times> ustring) list \<Rightarrow> exn + ustring" where
  "compute_family_id metric_name tags =
     (let tag_keys = (if tags = [] then [] else join [44] (sort (map fst tags)));
          family_string = metric_name @ [124] @ tag_keys
      in case encode_utf8 family_string of
           Inl e \<Rightarrow> Inl e
         | Inr bytes \<Rightarrow> Inr (hexdigest (sha1 bytes)))"

text \<open>
  The specification's words:
  \<open>family_id(metric_name, tag_keys) = hex(sha1(utf8(metric_name + "|" + join(",", sorted(unique(tag_keys))))))\<close>.
\<close>

definition family_string :: "ustring \<Rightarrow> ustring list \<Rightarrow> ustring" where
  "family_string metric_name tag_keys = metric_name @ [124] @ join [44] (sort (remdups tag_keys))"

definition family_id :: "ustring \<Rightarrow> ustring list \<Rightarrow> exn + ustring" where
  "family_id metric_name tag_keys =
     map_sum id (\<lambda>bytes. hexdigest (sha1 bytes)) (encode_utf8 (family_string metric_name tag_keys))"

text \<open>
  A tag key as \<open>TAG_PATTERN\<close> captures it is a run of word characters: it is not empty
  and holds neither the bar nor the comma that \<open>compute_family_id\<close> writes between
  the parts of the string it hashes.
\<close>

definition plain_key :: "ustring \<Rightarrow> bool" where
  "plain_key k \<longleftrightarrow> k \<noteq> [] \<and> 124 \<notin> set k \<and> 44 \<notin> set k"

section \<open>Tag types\<close>

text \<open>
  The three patterns of \<open>_infer_tag_type\<close>:
  \<^verbatim>\<open>^[a-f0-9]{8}-[a-f0-9]{4}-[a-f0-9]{4}-[a-f0-9]{4}-[a-f0-9]{12}$\<close>,
  \<^verbatim>\<open>^[a-zA-Z0-9]{20,}$\<close> and \<^verbatim>\<open>^[a-zA-Z]+-[a-zA-Z0-9-]+$\<close>.
\<close>

definition hex_class :: regex where
  "hex_class = CSet False [Rng (ord CHR ''a'') (ord CHR ''f''), Rng (ord CHR ''0'') (ord CHR ''9'')]"

definition identifier_patterns :: "regex list" where
  "identifier_patterns =
     [seq [Bol, Rep hex_class 8 (Some 8) True, Lit (ord CHR ''-''),
           Rep hex_class 4 (Some 4) True, Lit (ord CHR ''-''),
           Rep hex_class 4 (Some 4) True, Lit (ord CHR ''-''),
           Rep hex_class 4 (Some 4) True, Lit (ord CHR ''-''),
           Rep hex_class 12 (Some 12) True, Eol],
      seq [Bol, Rep (CSet False [Rng (ord CHR ''a'') (ord CHR ''z''), Rng (ord CHR ''A'') (ord CHR ''Z''),
                                 Rng (ord CHR ''0'') (ord CHR ''9'')]) 20 None True, Eol],
      seq [Bol, plus (CSet False [Rng (ord CHR ''a'') (ord CHR ''z''), Rng (ord CHR ''A'') (ord CHR ''Z'')]),
           Lit (ord CHR ''-''),
           plus (CSet False [Rng (ord CHR ''a'') (ord CHR ''z''), Rng (ord CHR ''A'') (ord CHR ''Z''),
                             Rng (ord CHR ''0'') (ord CHR ''9''), Ch (ord CHR ''-'')]), Eol]]"

text \<open>
  \<open>_infer_tag_type\<close>, from \<open>values\<close> on: the values collected from the sample rows. The
  two loops count; the inner loop over the patterns stops at the first that matches. The
  quotients are compared as exact fractions: a quotient of two counts up to the 1000 rows
  of the sample and the float of \<open>0.8\<close> or \<open>0.5\<close> compare as the fractions do.
\<close>

definition numeric_count :: "unicode_db \<Rightarrow> ustring list \<Rightarrow> nat" where
  "numeric_count U values =
     foldl (\<lambda>n v. case py_float U v of Inl e \<Rightarrow> n | Inr f \<Rightarrow> n + 1) 0 values"

definition identifier_matches :: "unicode_db \<Rightarrow> ustring list \<Rightarrow> nat" where
  "identifier_matches U values =
     foldl (\<lambda>n v. if list_ex (\<lambda>pattern. re_match U pattern v \<noteq> None) identifier_patterns
                   then n + 1 else n) 0 values"

definition infer_tag_type :: "unicode_db \<Rightarrow> ustring list \<Rightarrow> string" where
  "infer_tag_type U values =
     (if values = [] then ''categorical''
      else if (of_nat (numeric_count U values) :: rat) / of_nat (length values) > 8 / 10
      then ''numeric''
      else if (of_nat (identifier_matches U values) :: rat) / of_nat (length values) > 5 / 10
      then ''identifier''
      else if (of_nat (card (set values)) :: rat) / of_nat (length values) > 8 / 10
      then ''text''
      else ''categorical'')"

text \<open>The specification's words for the same: the share of the samples with a property.\<close>

definition share :: "('a \<Rightarrow> bool) \<Rightarrow> 'a list \<Rightarrow> rat" where
  "share P xs = of_nat (length (filter P xs)) / of_nat (length xs)"

definition parses_as_float :: "unicode_db \<Rightarrow> ustring \<Rightarrow> bool" where
  "parses_as_float U v \<longleftrightarrow> py_float U v \<noteq> Inl ValueError"

definition identifier_shaped :: "unicode_db \<Rightarrow> ustring \<Rightarrow> bool" where
  "identifier_shaped U v \<longleftrightarrow> list_ex (\<lambda>pattern. re_match U pattern v \<noteq> None) identifier_patterns"

definition distinct_ratio :: "'a list \<Rightarrow> rat" where
  "distinct_ratio xs = of_nat (length (remdups xs)) / of_nat (length xs)"

section \<open>Rows of the execution substrate\<close>

text \<open>
  \<open>collect()\<close> returns \<open>Row\<close> objects of the execution substrate. A \<open>Row\<close> is a tuple
  that knows the names of its columns. \<open>row[name]\<close> reads the column of that name.
  \<open>row.name\<close> is an attribute access: the interpreter looks the name up in the class
  first, where a tuple has the methods \<open>count\<close> and \<open>index\<close>, and asks the row for the
  column of that name only when the class has nothing of the name. So \<open>row.count\<close> is
  the method of the tuple, whatever the columns of the row are.
\<close>

datatype 'v attr = Column 'v | TupleMethod

type_synonym 'v row = "(string \<times> 'v) list"

definition row_getattr :: "'v row \<Rightarrow> string \<Rightarrow> exn + 'v attr" where
  "row_getattr row name =
     (if name = ''count'' \<or> name = ''index'' then Inr TupleMethod
      else case map_of row name of
             None \<Rightarrow> Inl AttributeError
           | Some v \<Rightarrow> Inr (Column v))"

definition row_getitem :: "'v row \<Rightarrow> string \<Rightarrow> exn + 'v" where
  "row_getitem row name = (case map_of row name of None \<Rightarrow> Inl ValueError | Some v \<Rightarrow> Inr v)"

text \<open>\<open>[row.name for row in rows]\<close>\<close>

fun collect_attr :: "'v row list \<Rightarrow> string \<Rightarrow> exn + 'v attr list" where
  "collect_attr [] name = Inr []"
| "collect_attr (row # rows) name =
     (case row_getattr row name of
        Inl e \<Rightarrow> Inl e
      | Inr x \<Rightarrow> (case collect_attr rows name of Inl e \<Rightarrow> Inl e | Inr xs \<Rightarrow> Inr (x # xs)))"

section \<open>Distributions\<close>

text \<open>
  \<open>_compute_categorical_distribution\<close>. The column is the list of its cells, \<open>None\<close> for
  a null. The execution substrate groups the cells that are not null by value, counts each
  group, orders the groups by falling count and keeps the first 100; it leaves the order
  of groups of equal count open, and the model keeps them in the order of \<open>remdups\<close>. Each
  group is a row of two columns, the value under the name of the column and the count
  under \<open>count\<close>.
\<close>

datatype 'a cell = Value 'a | Count nat

record 'a categorical_distribution =
  top_values :: "('a cell \<times> real) list"
  total_count :: nat
  entropy :: real

definition not_null :: "'a option list \<Rightarrow> 'a list" where
  "not_null col = concat (map (\<lambda>x. case x of None \<Rightarrow> [] | Some v \<Rightarrow> [v]) col)"

definition value_counts :: "'a option list \<Rightarrow> string \<Rightarrow> 'a cell row list" where
  "value_counts col column =
     (let vs = not_null col
      in map (\<lambda>g. [(column, Value (fst g)), (''count'', Count (snd g))])
           (take 100 (sort_key (\<lambda>g. - int (snd g)) (map (\<lambda>v. (v, count_list vs v)) (remdups vs)))))"

text \<open>\<open>x / n\<close> for what an attribute access gave and an \<open>int\<close>: only a number is divided.\<close>

definition truediv :: "'a cell attr \<Rightarrow> nat \<Rightarrow> exn + real" where
  "truediv x n =
     (case x of
        Column (Count c) \<Rightarrow> (if n = 0 then Inl ZeroDivisionError else Inr (real c / real n))
      | Column (Value v) \<Rightarrow> Inl TypeError
      | TupleMethod \<Rightarrow> Inl TypeError)"

text \<open>The loop that fills \<open>top_values\<close>, and the loop that sums the entropy.\<close>

fun top_values_loop :: "'a cell row list \<Rightarrow> string \<Rightarrow> nat \<Rightarrow> exn + ('a cell \<times> real) list" where
  "top_values_loop [] column df_count = Inr []"
| "top_values_loop (row # rows) column df_count =
     (case row_getattr row ''count'' of
        Inl e \<Rightarrow> Inl e
      | Inr c \<Rightarrow>
          (case truediv c df_count of
             Inl e \<Rightarrow> Inl e
           | Inr frequency \<Rightarrow>
               (case row_getitem row column of
                  Inl e \<Rightarrow> Inl e
                | Inr v \<Rightarrow>
                    (case top_values_loop rows column df_count of
                       Inl e \<Rightarrow> Inl e
                     | Inr rest \<Rightarrow> Inr ((v, frequency) # rest)))))"

definition entropy_loop :: "('a \<times> real) list \<Rightarrow> real" where
  "entropy_loop items =
     foldl (\<lambda>h item. if snd item > 0 then h - snd item * log 2 (snd item) else h) 0 items"

definition compute_categorical_distribution ::
  "'a option list \<Rightarrow> string \<Rightarrow> exn + 'a categorical_distribution" where
  "compute_categorical_distribution col column =
     (if length col = 0 then Inr \<lparr>top_values = [], total_count = 0, entropy = 0\<rparr>
      else (let rows = value_counts col column
            in case top_values_loop rows column (length col) of
                 Inl e \<Rightarrow> Inl e
               | Inr items \<Rightarrow>
                   Inr \<lparr>top_values = items, total_count = length rows,
                         entropy = entropy_loop items\<rparr>))"

text \<open>
  \<open>_compute_numeric_distribution\<close>. The aggregates of the execution substrate over the
  column are parameters of the model; each is \<open>None\<close> where the substrate returns null.
\<close>

record spark_aggs =
  percentile_approx :: "real list \<Rightarrow> real list \<Rightarrow> real list option"
  avg :: "real list \<Rightarrow> real option"
  stddev :: "real list \<Rightarrow> real option"
  spark_min :: "real list \<Rightarrow> real option"
  spark_max :: "real list \<Rightarrow> real option"

record numeric_distribution =
  quantiles :: "(string \<times> real) list"
  bins :: "real list"
  counts :: "nat list"
  d_mean :: "real option"
  d_stddev :: "real option"
  d_min :: "real option"
  d_max :: "real option"

definition np_linspace :: "real \<Rightarrow> real \<Rightarrow> nat \<Rightarrow> real list" where
  "np_linspace a b num = map (\<lambda>i. a + real i * ((b - a) / real (num - 1))) [0..<num]"

definition compute_numeric_distribution :: "spark_aggs \<Rightarrow> real list \<Rightarrow> exn + numeric_distribution" where
  "compute_numeric_distribution S column =
     (case percentile_approx S column [1 / 100, 5 / 100, 5 / 10, 95 / 100, 99 / 100] of
        None \<Rightarrow> Inl TypeError
      | Some q \<Rightarrow>
          if length q < 5 then Inl IndexError
          else Inr \<lparr>quantiles = [(''p01'', q ! 0), (''p05'', q ! 1), (''p50'', q ! 2),
                                 (''p95'', q ! 3), (''p99'', q ! 4)],
                    bins = np_linspace (q ! 0) (last q) 33,
                    counts = replicate 32 0,
                    d_mean = avg S column, d_stddev = stddev S column,
                    d_min = spark_min S column, d_max = spark_max S column\<rparr>)"

text \<open>
  What the counts of a histogram over \<open>edges\<close> are: the number of values in each bin
  between two neighbouring edges, the last bin closed on the right.
\<close>

definition bin_counts :: "real list \<Rightarrow> real list \<Rightarrow> nat list" where
  "bin_counts edges column =
     map (\<lambda>i. length (filter (\<lambda>x. edges ! i \<le> x \<and> (x < edges ! Suc i \<or> (Suc (Suc i) = length edges \<and> x = edges ! Suc i))) column))
         [0..<length edges - 1]"

section \<open>Temporal patterns\<close>

text \<open>
  \<open>_analyze_temporal_patterns\<close>, from the rows that \<open>windowed.collect()\<close> returns: one
  row for each one-minute window that holds a record, in the order of the windows.
  \<open>temporal_of\<close> is the function from the line \<open>mean_count = np.mean(minute_counts)\<close>
  on, for a list of numbers. The arithmetic is that of the real numbers; the rounding of
  floats is not modelled.
\<close>

record temporal =
  intensity_curve :: "real list"
  coefficient_of_variation :: real
  fano_factor :: real

definition np_mean :: "real list \<Rightarrow> real" where
  "np_mean xs = sum_list xs / real (length xs)"

definition np_var :: "real list \<Rightarrow> real" where
  "np_var xs = np_mean (map (\<lambda>x. (x - np_mean xs)\<^sup>2) xs)"

definition np_std :: "real list \<Rightarrow> real" where
  "np_std xs = sqrt (np_var xs)"

definition temporal_of :: "real list \<Rightarrow> temporal" where
  "temporal_of minute_counts =
     (let mean_count = np_mean minute_counts;
          curve = (if mean_count > 0 then map (\<lambda>c. c / mean_count) minute_counts
                   else replicate (length minute_counts) 1);
          curve = (if length curve < 1440 then curve @ replicate (1440 - length curve) 1
                   else if length curve > 1440 then take 1440 curve
                   else curve)
      in \<lparr>intensity_curve = curve,
          coefficient_of_variation =
            (if np_mean minute_counts > 0 then np_std minute_counts / np_mean minute_counts else 0),
          fano_factor =
            (if np_mean minute_counts > 0 then np_var minute_counts / np_mean minute_counts else 1)\<rparr>)"

text \<open>
  \<open>np.mean\<close> adds the elements of the list: an element that is no number raises
  \<open>TypeError\<close>.
\<close>

definition number :: "real attr \<Rightarrow> real option" where
  "number x = (case x of Column c \<Rightarrow> Some c | TupleMethod \<Rightarrow> None)"

definition analyze_temporal_patterns :: "real row list \<Rightarrow> exn + temporal" where
  "analyze_temporal_patterns windowed =
     (case collect_attr windowed ''count'' of
        Inl e \<Rightarrow> Inl e
      | Inr minute_counts \<Rightarrow>
          (case those (map number (if minute_counts = [] then replicate 1440 (Column 1)
                                   else minute_counts)) of
             None \<Rightarrow> Inl TypeError
           | Some numbers \<Rightarrow> Inr (temporal_of numbers)))"

text \<open>The specification's words: \<open>normalize\<close> divides by the mean, a mean of 0 giving all 1.\<close>

definition normalize :: "real list \<Rightarrow> real list" where
  "normalize cs = (if np_mean cs = 0 then replicate (length cs) 1 else map (\<lambda>c. c / np_mean cs) cs)"

section \<open>Properties of the parser\<close>

text \<open>The equations that evaluate the parser on a concrete line.\<close>

lemmas parser_eval =
  isspace_def isspace_numeral_def split_def strip_def strip_numeral_def int_max_str_digits_def
  str_def ord_def in_cset_def isdecimal_def isword_def
  digit_value_def plus_def star_def opt_def seq_def lit_def re_match_def match_at_def
  HISTOGRAM_PATTERN_def SPAN_PATTERN_def ascii_db_def word_at_def at_boundary_def Let_def
  parse_line_def parse_body_def parse_metric_def parse_metric_rest_def parse_histogram_def
  parse_span_def startswith_def METRIC_NAME_PATTERN_def DELTA_PATTERN_def TAG_PATTERN_def
  source_pattern_def timestamp_pattern_def quoted_body_def group_def truthy_def py_or_def
  tag_step_def tag_loop_def cut_def unescape_def re_search_def
  re_search_from_def finditer_def py_float_def py_int_def int_of_group_def unsigned_def
  FLOAT_GRAMMAR_def sign_re_def digitpart_re_def caseless_def re_fullmatch_def

subsection \<open>What each branch returns\<close>

lemma py_float_error: "py_float U s = Inl e \<Longrightarrow> e = ValueError"
  by (auto simp: py_float_def split: if_splits)

text \<open>
  The separator U+001C is white space for \<open>str.split\<close> and no part of a numeral for
  \<open>int\<close> and \<open>float\<close>; and \<open>int\<close> refuses a numeral of more digits than its limit.
\<close>

lemma separator_refused:
  "split ([28] @ str ''1'') = [str ''1'']"
  "py_int ascii_db ([28] @ str ''1'') = Inl ValueError"
  "py_float ascii_db ([28] @ str ''1'') = Inl ValueError"
  "py_int ascii_db (str '' 1_0 '') = Inr 10"
  by (simp_all add: parser_eval)

lemma py_int_limit:
  assumes "py_int U s = Inr n"
  shows "length (filter (\<lambda>c. c \<noteq> 95) (strip_numeral s)) \<le> Suc int_max_str_digits"
proof -
  let ?t = "strip_numeral s"
  let ?body = "if ?t \<noteq> [] \<and> (hd ?t = 43 \<or> hd ?t = 45) then tl ?t else ?t"
  from assms have "\<not> int_max_str_digits < length (filter (\<lambda>c. c \<noteq> 95) ?body)"
    by (auto simp: py_int_def Let_def split: option.splits if_splits)
  moreover have "length (filter (\<lambda>c. c \<noteq> 95) ?t) \<le> Suc (length (filter (\<lambda>c. c \<noteq> 95) ?body))"
    by (cases ?t) auto
  ultimately show ?thesis by simp
qed

lemma parse_metric_kind:
  "parse_metric U line = Inr (Some r) \<Longrightarrow> record_type r = ''metric''"
  by (auto simp: parse_metric_def parse_metric_rest_def Let_def
      split: option.splits sum.splits if_splits prod.splits)

lemma parse_histogram_kind:
  "parse_histogram U m line = Inr (Some r) \<Longrightarrow> record_type r = ''histogram''"
  by (auto simp: parse_histogram_def Let_def split: option.splits sum.splits if_splits)

lemma parse_span_kind:
  "parse_span U m = Inr (Some r) \<Longrightarrow> record_type r = ''span''"
  by (auto simp: parse_span_def Let_def split: option.splits sum.splits)

lemma parse_body_kind:
  "parse_body U line = Inr (Some r) \<Longrightarrow> record_type r \<in> {''metric'', ''histogram'', ''span''}"
  by (auto simp: parse_body_def split: option.splits
      dest: parse_metric_kind parse_histogram_kind parse_span_kind)

subsection \<open>What the patterns capture\<close>











































subsection \<open>When a line gives no record\<close>











text \<open>
  Claim C2, as the source has it. \<open>_parse_metric\<close> catches the \<open>ValueError\<close> of
  \<open>float(parts[1])\<close> and returns \<open>None\<close>: a line that is neither a histogram nor a span,
  whose first token is a metric name and whose second token is no float, gives no record
  (it is dropped), not an error record.
\<close>

theorem bad_value_dropped:
  assumes "strip raw \<noteq> []" and "\<not> startswith (strip raw) [35]"
    and "re_match U HISTOGRAM_PATTERN (strip raw) = None"
    and "re_match U SPAN_PATTERN (strip raw) = None"
    and "re_match U METRIC_NAME_PATTERN (split (strip raw) ! 0) = Some mm"
    and "py_or (group mm 1) (group mm 2) \<noteq> None"
    and "2 \<le> length (split (strip raw))"
    and "py_float U (split (strip raw) ! 1) = Inl e"
  shows "parse_line U raw = None"
  using assms py_float_error [OF assms(8)]
  by (auto simp: parse_line_def parse_body_def parse_metric_def Let_def split: option.splits)

theorem bad_value_dropped_witness:
  "parse_line ascii_db (str ''cpu.load 4x2 source=web env=prod'') = None"
proof -
  let ?raw = "str ''cpu.load 4x2 source=web env=prod''"
  let ?mm = "\<lparr>re_string = str ''cpu.load'', re_start = 0, re_end = 8, re_groups = [(2, 0, 8)]\<rparr>"
  have h1: "strip ?raw \<noteq> []" by (simp add: parser_eval)
  have h2: "\<not> startswith (strip ?raw) [35]" by (simp add: parser_eval)
  have h3: "re_match ascii_db HISTOGRAM_PATTERN (strip ?raw) = None" by (simp add: parser_eval)
  have h4: "re_match ascii_db SPAN_PATTERN (strip ?raw) = None" by (simp add: parser_eval)
  have h5: "re_match ascii_db METRIC_NAME_PATTERN (split (strip ?raw) ! 0) = Some ?mm"
    by (simp add: parser_eval)
  have h6: "py_or (group ?mm 1) (group ?mm 2) \<noteq> None" by (simp add: parser_eval)
  have h7: "2 \<le> length (split (strip ?raw))" by (simp add: parser_eval)
  have h8: "py_float ascii_db (split (strip ?raw) ! 1) = Inl ValueError" by (simp add: parser_eval)
  show ?thesis by (rule bad_value_dropped [OF h1 h2 h3 h4 h5 h6 h7 h8])
qed

text \<open>
  The line of the specification: its second token \<open>abc\<close> is no float, and the line gives
  no record where the claim says an error record.
\<close>

theorem bad_value_counterexample:
  "parse_line ascii_db (str ''gauge abc source=s'') = None
   \<and> py_float ascii_db (str ''abc'') = Inl ValueError"
  by (simp add: parser_eval)

text \<open>
  Claim C4. The line of the specification starts with the delta symbol U+2206. The
  unquoted branch of \<open>METRIC_NAME_PATTERN\<close> wants an ASCII letter or digit first, so the
  pattern does not match the first token and \<open>_parse_metric\<close> returns \<open>None\<close> before it
  looks for the delta prefix: the line gives no record at all.
\<close>

theorem delta_line_dropped:
  "parse_line U ([8710] @ str ''request.count 5 source=api-2 endpoint=\"/v1/users\"'') = None"
  by (simp add: parser_eval)

text \<open>
  Inside a quoted name the delta prefix is seen and stripped. The value of the record is
  then the value of the last tag and not the number 5: the loop over the tags assigns to the
  variable \<open>value\<close> of \<open>_parse_metric\<close>.
\<close>

lemma quoted_delta_line:
  "parse_line U ([34, 8710] @ str ''request.count\" 5 source=api-2 endpoint=\"/v1/users\"'')
     = Some (Metric \<lparr>m_metric = Some (str ''request.count''),
         m_value = PyStr (str ''/v1/users''), m_timestamp = None,
         m_source = Some (str ''api-2''),
         m_tags = [(Some (str ''endpoint''), str ''/v1/users'')],
         m_is_delta = True, m_line_length = 52\<rparr>)"
  by (simp add: parser_eval)

text \<open>
  Claim C5. \<open>HISTOGRAM_PATTERN\<close> asks for white space on both sides of the optional
  timestamp, so a histogram line without a timestamp matches only with two white space
  characters between the directive and the count. With one, the line is no histogram (and
  no span and no metric): it gives no record.
\<close>

theorem histogram_single_space:
  "parse_line U (str ''!M #20 1 2.0'') = None"
  by (simp add: parser_eval)

text \<open>
  With two spaces, or with a timestamp, the same line is a histogram, its centroids read
  pair by pair up to the first pair that does not convert.
\<close>

lemma histogram_two_spaces:
  "parse_line U (str ''!M  #20 1 2.0 5 x 7 8'')
     = Some (Histogram \<lparr>h_granularity = Some (str ''!M''), h_timestamp = None,
         h_count = 20, h_centroids = [\<lparr>c_count = 1, c_value = Float (str ''2.0'')\<rparr>],
         h_line_length = 21\<rparr>)"
  by (simp add: parser_eval)

lemma histogram_with_timestamp:
  "parse_line U (str ''!M 1700000000 #20 1 2.0 5 x 7 8'')
     = Some (Histogram \<lparr>h_granularity = Some (str ''!M''), h_timestamp = Some 1700000000,
         h_count = 20, h_centroids = [\<lparr>c_count = 1, c_value = Float (str ''2.0'')\<rparr>],
         h_line_length = 31\<rparr>)"
  by (simp add: parser_eval)

subsection \<open>Tag values\<close>

lemma replace_nonempty: "new \<noteq> [] \<Longrightarrow> v \<noteq> [] \<Longrightarrow> replace old new v \<noteq> []"
  by (cases old; cases v) auto

lemma unescape_nonempty: "v \<noteq> [] \<Longrightarrow> unescape v \<noteq> []"
  by (simp add: unescape_def replace_nonempty)

lemma unescape_nonempty': "v \<noteq> [] \<Longrightarrow> [] \<noteq> unescape v"
  using unescape_nonempty [of v] by auto

lemma dict_set_values: "(k', v') \<in> set (dict_set d k v) \<Longrightarrow> (k', v') \<in> set d \<or> v' = v"
  by (induction d) (auto split: if_splits)

lemma tag_step_values:
  assumes "\<forall>(k, v) \<in> set (snd st). v \<noteq> []"
  shows "\<forall>(k, v) \<in> set (snd (tag_step st m)). v \<noteq> []"
  using assms
  by (auto simp: tag_step_def Let_def unescape_nonempty unescape_nonempty'
      split: option.splits if_splits dest!: dict_set_values)

lemma tag_fold_values:
  "\<forall>(k, v) \<in> set (snd st). v \<noteq> [] \<Longrightarrow> \<forall>(k, v) \<in> set (snd (foldl tag_step st ms)). v \<noteq> []"
proof (induction ms arbitrary: st)
  case Nil
  then show ?case by simp
next
  case (Cons m ms)
  show ?case using Cons.IH [OF tag_step_values [OF Cons.prems]] by simp
qed

lemma tag_loop_values: "tag_loop U val text = (x, d) \<Longrightarrow> (k, v) \<in> set d \<Longrightarrow> v \<noteq> []"
  using tag_fold_values [of "(val, [])" "finditer U TAG_PATTERN text"]
  by (auto simp: tag_loop_def)

lemma parse_metric_rest_tags:
  "parse_metric_rest U line parts name d val = Inr (Some r)
    \<Longrightarrow> (k, v) \<in> set (record_tags r) \<Longrightarrow> v \<noteq> []"
  by (auto simp: parse_metric_rest_def Let_def split: option.splits sum.splits prod.splits
      dest: tag_loop_values)

lemma parse_metric_tags:
  "parse_metric U line = Inr (Some r) \<Longrightarrow> (k, v) \<in> set (record_tags r) \<Longrightarrow> v \<noteq> []"
  by (auto simp: parse_metric_def Let_def split: option.splits sum.splits if_splits
      dest: parse_metric_rest_tags)

lemma parse_span_tags:
  "parse_span U m = Inr (Some r) \<Longrightarrow> (k, v) \<in> set (record_tags r) \<Longrightarrow> v \<noteq> []"
  by (cases "tag_loop U PyNone (the (group m 3))")
     (auto simp: parse_span_def Let_def split: option.splits sum.splits dest: tag_loop_values)

lemma parse_histogram_tags:
  "parse_histogram U m line = Inr (Some r) \<Longrightarrow> record_tags r = []"
  by (auto simp: parse_histogram_def Let_def split: option.splits sum.splits if_splits)

lemma parse_body_tags:
  "parse_body U line = Inr (Some r) \<Longrightarrow> (k, v) \<in> set (record_tags r) \<Longrightarrow> v \<noteq> []"
  by (auto simp: parse_body_def split: option.splits
      dest: parse_metric_tags parse_span_tags parse_histogram_tags)

text \<open>
  Claim C10. A round of the tag loop whose value is \<open>None\<close> or empty (\<open>key=""\<close>; a bare
  \<open>key=\<close> is no match of \<open>TAG_PATTERN\<close> at all) leaves the dictionary as it was, and
  every value stored in the tags of a metric or a span that \<open>parse_line\<close> returns is a
  string that is not empty.
\<close>

theorem tag_values_nonempty:
  "(\<not> truthy (py_or (group tm 2) (group tm 3)) \<longrightarrow> snd (tag_step st tm) = snd st)
   \<and> (parse_line U raw = Some r \<and> (k, v) \<in> set (record_tags r) \<longrightarrow> v \<noteq> [])"
proof -
  have omitted: "\<not> truthy (py_or (group tm 2) (group tm 3)) \<longrightarrow> snd (tag_step st tm) = snd st"
    by (auto simp: tag_step_def truthy_def Let_def split: option.splits)
  have stored: "parse_line U raw = Some r \<and> (k, v) \<in> set (record_tags r) \<longrightarrow> v \<noteq> []"
    by (auto simp: parse_line_def Let_def split: if_splits sum.splits dest: parse_body_tags)
  from omitted stored show ?thesis by blast
qed

theorem tag_values_nonempty_witness:
  "parse_line ascii_db (str ''m 1 source=s a=\"\" b=x'')
     = Some (Metric \<lparr>m_metric = Some (str ''m''), m_value = PyStr (str ''x''),
          m_timestamp = None, m_source = Some (str ''s''),
          m_tags = [(Some (str ''b''), str ''x'')], m_is_delta = False, m_line_length = 21\<rparr>)
   \<and> str ''x'' \<noteq> []
   \<and> snd (tag_step (PyFloat (Float (str ''1'')), [])
        \<lparr>re_string = str '' a=\"\" b=x'', re_start = 1, re_end = 5,
         re_groups = [(2, 4, 4), (1, 1, 2)]\<rparr>) = []"
proof -
  let ?r = "Metric \<lparr>m_metric = Some (str ''m''), m_value = PyStr (str ''x''),
          m_timestamp = None, m_source = Some (str ''s''),
          m_tags = [(Some (str ''b''), str ''x'')], m_is_delta = False, m_line_length = 21\<rparr>"
  let ?tm = "\<lparr>re_string = str '' a=\"\" b=x'', re_start = 1, re_end = 5,
         re_groups = [(2, 4, 4), (1, 1, 2)]\<rparr>"
  have h1: "parse_line ascii_db (str ''m 1 source=s a=\"\" b=x'') = Some ?r"
    by (simp add: parser_eval)
  have h2: "(Some (str ''b''), str ''x'') \<in> set (record_tags ?r)" by simp
  have h3: "\<not> truthy (py_or (group ?tm 2) (group ?tm 3))" by (simp add: parser_eval)
  note t = tag_values_nonempty [of ?tm "(PyFloat (Float (str ''1'')), [])" ascii_db
      "str ''m 1 source=s a=\"\" b=x''" ?r "Some (str ''b'')" "str ''x''"]
  from t h1 h2 have a: "str ''x'' \<noteq> []" by blast
  from t h3 have b: "snd (tag_step (PyFloat (Float (str ''1'')), []) ?tm) = snd (PyFloat (Float (str ''1'')), [])"
    by blast
  from h1 a b show ?thesis by simp
qed

section \<open>Properties of the estimators\<close>

subsection \<open>The intensity curve\<close>

text \<open>
  On a list of numbers that are not negative, the function from \<open>np.mean\<close> on does what
  the specification says: the curve has exactly 1440 entries, the numbers divided by their
  mean (all 1 when the mean is 0), padded with 1 at the end or cut to the first 1440.
\<close>

lemma np_mean_nonneg: "(\<And>x. x \<in> set xs \<Longrightarrow> 0 \<le> x) \<Longrightarrow> 0 \<le> np_mean xs"
  by (simp add: np_mean_def sum_list_nonneg)

lemma normalize_nonneg:
  assumes "\<And>x. x \<in> set cs \<Longrightarrow> 0 \<le> x"
  shows "(if np_mean cs > 0 then map (\<lambda>c. c / np_mean cs) cs else replicate (length cs) 1)
         = normalize cs"
  using np_mean_nonneg [of cs] assms by (auto simp: normalize_def)

lemma length_normalize: "length (normalize cs) = length cs"
  by (simp add: normalize_def)

lemma curve_of_numbers:
  assumes "\<And>x. x \<in> set cs \<Longrightarrow> 0 \<le> x"
  shows "length (intensity_curve (temporal_of cs)) = 1440"
    and "intensity_curve (temporal_of cs) = take 1440 (normalize cs @ replicate (1440 - length cs) 1)"
proof -
  have curve: "intensity_curve (temporal_of cs)
      = (let c = normalize cs
         in if length c < 1440 then c @ replicate (1440 - length c) 1
            else if length c > 1440 then take 1440 c else c)"
    unfolding temporal_of_def Let_def by (simp add: normalize_nonneg [OF assms])
  show eq: "intensity_curve (temporal_of cs) = take 1440 (normalize cs @ replicate (1440 - length cs) 1)"
    unfolding curve Let_def by (simp add: length_normalize)
  show "length (intensity_curve (temporal_of cs)) = 1440"
    unfolding eq by (simp add: length_normalize)
qed

lemma row_count_method: "row_getattr row ''count'' = Inr TupleMethod"
  by (simp add: row_getattr_def)

lemma collect_count: "collect_attr rows ''count'' = Inr (replicate (length rows) TupleMethod)"
  by (induction rows) (simp_all add: row_count_method)

lemma numbers_of_columns: "those (map number (map Column xs)) = Some xs"
  by (induction xs) (simp_all add: number_def)

lemma no_windows:
  "analyze_temporal_patterns [] = Inr (temporal_of (replicate 1440 1))"
proof -
  have "replicate 1440 (Column (1::real)) = map Column (replicate 1440 1)" by simp
  then have "those (map number (replicate 1440 (Column 1))) = Some (replicate 1440 1)"
    using numbers_of_columns [of "replicate 1440 1"] by simp
  then show ?thesis by (simp add: analyze_temporal_patterns_def)
qed

lemma flat_curve: "intensity_curve (temporal_of (replicate 1440 1)) = replicate 1440 1"
proof -
  have m: "np_mean (replicate 1440 1) = 1" by (simp add: np_mean_def sum_list_replicate)
  have n: "normalize (replicate 1440 1) = replicate 1440 1"
    unfolding normalize_def m by (simp add: map_replicate_const)
  show ?thesis using curve_of_numbers(2) [of "replicate 1440 1"] by (simp add: n)
qed

text \<open>
  Claim C6. The function reads the counts with \<open>row.count\<close>, which is the method of the
  tuple and not the column: as soon as one window holds a record, \<open>minute_counts\<close> is a
  list of methods and \<open>np.mean\<close> raises \<open>TypeError\<close>. No curve is returned. (Only with
  no window at all does the function return, the flat curve of 1440 ones.)
\<close>

theorem temporal_type_error:
  "analyze_temporal_patterns (row # rows) = Inl TypeError"
  by (simp add: analyze_temporal_patterns_def collect_count number_def)

subsection \<open>The numeric distribution\<close>

lemma np_linspace_ends:
  "length (np_linspace a b 33) = 33" "hd (np_linspace a b 33) = a" "last (np_linspace a b 33) = b"
proof -
  show "length (np_linspace a b 33) = 33" by (simp add: np_linspace_def)
  have "np_linspace a b 33 ! 0 = a" by (simp add: np_linspace_def)
  then show "hd (np_linspace a b 33) = a" by (simp add: hd_conv_nth np_linspace_def)
  have "last (np_linspace a b 33) = np_linspace a b 33 ! 32"
    by (simp add: last_conv_nth np_linspace_def)
  also have "\<dots> = b" unfolding np_linspace_def by (simp del: upt_Suc add: field_simps)
  finally show "last (np_linspace a b 33) = b" .
qed

text \<open>
  Claim C9. The result has the five quantiles, the aggregates and 33 edges that start at
  \<open>p01\<close>, but its \<open>counts\<close> are the constant list of 32 zeros (the source marks it as a
  placeholder): they do not count the values of the column, whatever the column is.
\<close>

theorem numeric_counts_all_zero:
  "case compute_numeric_distribution S column of
     Inl e \<Rightarrow> True
   | Inr d \<Rightarrow> counts d = replicate 32 0 \<and> length (bins d) = 33
              \<and> hd (bins d) = snd (quantiles d ! 0)"
  by (auto simp: compute_numeric_distribution_def np_linspace_ends split: option.splits)

text \<open>
  On the column 1, 2, 3 with the quantiles 1, 1, 2, 3, 3 the first bin holds the value 1,
  and the first count of the result is 0.
\<close>

lemma numeric_counts_example:
  "map_sum id (\<lambda>d. (counts d ! 0, bin_counts (bins d) [1, 2, 3] ! 0))
     (compute_numeric_distribution
        \<lparr>percentile_approx = (\<lambda>c ps. Some [1, 1, 2, 3, 3]), avg = (\<lambda>c. Some 2),
         stddev = (\<lambda>c. Some 1), spark_min = (\<lambda>c. Some 1), spark_max = (\<lambda>c. Some 3)\<rparr>
        [1, 2, 3]) = Inr (0, 1)"
  by (simp add: compute_numeric_distribution_def bin_counts_def np_linspace_def)

subsection \<open>The type of a tag\<close>

lemma count_filter:
  "foldl (\<lambda>n v. if P v then n + 1 else n) k xs = k + length (filter P xs)"
  by (induction xs arbitrary: k) auto

lemma numeric_count_filter:
  "numeric_count U values = length (filter (parses_as_float U) values)"
proof -
  have "(\<lambda>n v. case py_float U v of Inl e \<Rightarrow> n | Inr f \<Rightarrow> n + 1)
        = (\<lambda>(n::nat) v. if parses_as_float U v then n + 1 else n)"
    by (auto simp: fun_eq_iff parses_as_float_def py_float_def split: sum.splits)
  then show ?thesis
    unfolding numeric_count_def using count_filter [of "parses_as_float U" 0 "values"] by simp
qed

lemma identifier_matches_filter:
  "identifier_matches U values = length (filter (identifier_shaped U) values)"
  unfolding identifier_matches_def identifier_shaped_def [symmetric]
  using count_filter [of "identifier_shaped U" 0 "values"] by simp

lemma infer_tag_type_shares:
  "infer_tag_type U values =
     (if values = [] then ''categorical''
      else if share (parses_as_float U) values > 8 / 10 then ''numeric''
      else if share (identifier_shaped U) values > 5 / 10 then ''identifier''
      else if distinct_ratio values > 8 / 10 then ''text''
      else ''categorical'')"
  unfolding infer_tag_type_def share_def distinct_ratio_def
    numeric_count_filter identifier_matches_filter length_remdups_card_conv
  by simp

text \<open>
  Claim C7, as the source has it: every threshold is strict. The empty sample is
  categorical; otherwise the type is numeric if more than 80% of the samples parse as a
  float, else identifier if more than 50% match one of the three identifier patterns, else
  text if the ratio of distinct values is more than 0.8, else categorical.
\<close>

theorem infer_tag_type_thresholds:
  "infer_tag_type U values =
     (if values = [] then ''categorical''
      else if share (parses_as_float U) values > 8 / 10 then ''numeric''
      else if share (identifier_shaped U) values > 5 / 10 then ''identifier''
      else if distinct_ratio values > 8 / 10 then ''text''
      else ''categorical'')"
  by (rule infer_tag_type_shares)

lemmas infer_eval = parser_eval infer_tag_type_shares
  identifier_patterns_def hex_class_def share_def parses_as_float_def identifier_shaped_def
  distinct_ratio_def

text \<open>
  At the thresholds the claim and the source part: of five samples four parse as a float
  (exactly 80%), and of four samples two are identifiers (exactly 50%); the source goes on
  to the next test both times and answers text.
\<close>

theorem infer_tag_type_counterexample:
  "share (parses_as_float ascii_db) [str ''1'', str ''2'', str ''3'', str ''4'', str ''x''] = 8 / 10
   \<and> infer_tag_type ascii_db [str ''1'', str ''2'', str ''3'', str ''4'', str ''x''] = ''text''
   \<and> share (identifier_shaped ascii_db)
        [str ''web-01'', str ''us east'', str ''db-7'', str ''eu west''] = 5 / 10
   \<and> infer_tag_type ascii_db
        [str ''web-01'', str ''us east'', str ''db-7'', str ''eu west''] = ''text''"
  by (simp add: infer_eval)

lemma infer_separator: "infer_tag_type ascii_db [[28] @ str ''1''] = ''text''"
  by (simp add: infer_eval)

lemma infer_examples:
  "infer_tag_type ascii_db [str ''1'', str ''2.5'', str ''3e2'', str ''4'', str ''-5''] = ''numeric''"
  "infer_tag_type ascii_db
     [str ''0a1b2c3d-0000-1111-2222-0123456789ab'', str ''abcdefghij0123456789'', str ''x'']
     = ''identifier''"
  "infer_tag_type ascii_db [str ''a'', str ''a'', str ''b''] = ''categorical''"
  "infer_tag_type ascii_db [] = ''categorical''"
  by (simp_all add: infer_eval)

subsection \<open>The categorical distribution\<close>

text \<open>
  The entropy loop on numbers: for frequencies in \<open>(0, 1]\<close> the sum is at least 0, and
  it is 0 exactly when every frequency is 1.
\<close>

lemma entropy_fold:
  "foldl (\<lambda>h item. if snd item > 0 then h - snd item * log 2 (snd item) else h) a items
     = a + (\<Sum>item\<leftarrow>items. if snd item > 0 then - (snd item * log 2 (snd item)) else 0)"
  by (induction items arbitrary: a) auto

lemma term_nonneg: "0 < p \<Longrightarrow> p \<le> 1 \<Longrightarrow> 0 \<le> - (p * log 2 p)"
  by (simp add: mult_nonneg_nonpos)

lemma term_zero: "0 < p \<Longrightarrow> p \<le> 1 \<Longrightarrow> - (p * log 2 p) = 0 \<longleftrightarrow> p = (1::real)"
proof (cases "p = 1")
  case True
  then show ?thesis by simp
next
  case False
  assume p: "0 < p" "p \<le> 1"
  with False have "p < 1" by simp
  with p have "log 2 p < 0" by simp
  with p have "p * log 2 p < 0" by (simp add: mult_pos_neg)
  then have "- (p * log 2 p) \<noteq> 0" by linarith
  with False show ?thesis by blast
qed

lemma entropy_loop_Cons:
  "0 < snd it \<Longrightarrow> entropy_loop (it # items) = - (snd it * log 2 (snd it)) + entropy_loop items"
  unfolding entropy_loop_def entropy_fold by simp

lemma entropy_loop_nonneg:
  assumes "list_all (\<lambda>item. 0 < snd item \<and> snd item \<le> 1) items"
  shows "0 \<le> entropy_loop items"
  using assms
proof (induction items)
  case Nil
  then show ?case by (simp add: entropy_loop_def)
next
  case (Cons it items)
  then have p: "0 < snd it" "snd it \<le> 1" and rest: "0 \<le> entropy_loop items" by simp_all
  from term_nonneg [OF p] rest show ?case unfolding entropy_loop_Cons [OF p(1)] by linarith
qed

lemma entropy_loop_zero:
  assumes "list_all (\<lambda>item. 0 < snd item \<and> snd item \<le> 1) items"
  shows "entropy_loop items = 0 \<longleftrightarrow> list_all (\<lambda>item. snd item = 1) items"
  using assms
proof (induction items)
  case Nil
  then show ?case by (simp add: entropy_loop_def)
next
  case (Cons it items)
  then have p: "0 < snd it" "snd it \<le> 1"
    and rest: "list_all (\<lambda>item. 0 < snd item \<and> snd item \<le> 1) items"
    by simp_all
  have n1: "0 \<le> - (snd it * log 2 (snd it))" using p by (rule term_nonneg)
  have n2: "0 \<le> entropy_loop items" using rest by (rule entropy_loop_nonneg)
  have split: "entropy_loop (it # items) = - (snd it * log 2 (snd it)) + entropy_loop items"
    using p(1) by (rule entropy_loop_Cons)
  have "entropy_loop (it # items) = 0
      \<longleftrightarrow> - (snd it * log 2 (snd it)) = 0 \<and> entropy_loop items = 0"
    unfolding split using n1 n2 by linarith
  also have "\<dots> \<longleftrightarrow> snd it = 1 \<and> list_all (\<lambda>item. snd item = 1) items"
    using term_zero [OF p] Cons.IH [OF rest] by simp
  finally show ?case by simp
qed

lemma top_values_loop_raises:
  "top_values_loop (row # rows) column n = Inl TypeError"
  by (simp add: row_count_method truediv_def)

lemma value_counts_length: "length (value_counts col column) \<le> 100"
  by (simp add: value_counts_def Let_def)

lemma value_counts_empty: "value_counts col column = [] \<longleftrightarrow> not_null col = []"
proof -
  have "length (value_counts col column) = min (length (remdups (not_null col))) 100"
    by (simp add: value_counts_def Let_def)
  then have "length (value_counts col column) = 0 \<longleftrightarrow> length (remdups (not_null col)) = 0"
    by (auto simp: min_def)
  then show ?thesis by simp
qed

text \<open>
  The loop over the rows divides \<open>row.count\<close>, the method of the tuple, by the number
  of rows: a column with a value that is not null raises \<open>TypeError\<close>, and the only
  result there is has no value and the entropy 0.
\<close>

lemma categorical_results:
  "compute_categorical_distribution col column = Inr d
    \<longleftrightarrow> not_null col = [] \<and> d = \<lparr>top_values = [], total_count = 0, entropy = 0\<rparr>"
proof (cases "value_counts col column")
  case Nil
  then have "not_null col = []" by (simp add: value_counts_empty)
  with Nil show ?thesis
    by (auto simp: compute_categorical_distribution_def entropy_loop_def)
next
  case (Cons row rows)
  then have nn: "not_null col \<noteq> []" using value_counts_empty [of col column] by simp
  then have "col \<noteq> []" by (auto simp: not_null_def)
  with Cons nn show ?thesis
    by (simp add: compute_categorical_distribution_def row_count_method truediv_def)
qed

lemma categorical_raises:
  "not_null col \<noteq> [] \<Longrightarrow> compute_categorical_distribution col column = Inl TypeError"
proof -
  assume nn: "not_null col \<noteq> []"
  then obtain row rows where "value_counts col column = row # rows"
    using value_counts_empty [of col column] by (cases "value_counts col column") auto
  moreover have "col \<noteq> []" using nn by (auto simp: not_null_def)
  ultimately show ?thesis
    by (simp add: compute_categorical_distribution_def row_count_method truediv_def)
qed

text \<open>
  The count that a row carries in its column \<open>count\<close>, divided by the number of rows
  of the data frame, is a frequency in \<open>(0, 1]\<close>: these are the items the entropy loop
  is written for.
\<close>

lemma not_null_length: "length (not_null col) \<le> length col"
  by (induction col) (auto simp: not_null_def split: option.splits)

lemma row_frequency_bounds:
  assumes "row \<in> set (value_counts col column)" and "map_of row ''count'' = Some (Count c)"
  shows "0 < c \<and> c \<le> length col"
    and "\<exists>p. truediv (Column (Count c)) (length col) = Inr p \<and> 0 < p \<and> p \<le> 1"
proof -
  let ?vs = "not_null col"
  from assms(1) obtain g where g: "g \<in> set (map (\<lambda>v. (v, count_list ?vs v)) (remdups ?vs))"
    and row: "row = [(column, Value (fst g)), (''count'', Count (snd g))]"
    by (auto simp: value_counts_def Let_def dest!: in_set_takeD)
  from g have v: "fst g \<in> set ?vs" and n: "snd g = count_list ?vs (fst g)" by auto
  from row assms(2) have "c = snd g" by (auto split: if_splits)
  with n have c: "c = count_list ?vs (fst g)" by simp
  have "count_list ?vs (fst g) \<noteq> 0" using v by (simp add: count_list_0_iff)
  then have "0 < count_list ?vs (fst g)" by simp
  moreover have "count_list ?vs (fst g) \<le> length ?vs" by (rule count_le_length)
  ultimately show b: "0 < c \<and> c \<le> length col" using not_null_length [of col] c by simp
  then show "\<exists>p. truediv (Column (Count c)) (length col) = Inr p \<and> 0 < p \<and> p \<le> 1"
    by (auto simp: truediv_def)
qed

text \<open>
  Claim C8. The loop over the rows divides \<open>row.count\<close>, which is the method of the
  tuple and not the column, by the number of rows. So on every column that holds a value
  that is not null the function raises \<open>TypeError\<close> at the first row: it returns no
  distribution, where the claim has one with at most 100 values, frequencies in \<open>[0, 1]\<close>
  and their entropy.
\<close>

theorem categorical_type_error:
  "compute_categorical_distribution (xs @ Some v # ys) column = Inl TypeError"
proof -
  have "not_null (xs @ Some v # ys) \<noteq> []" by (simp add: not_null_def)
  then show ?thesis by (rule categorical_raises)
qed

text \<open>
  The column with the one value \<open>a\<close> raises, where the claim has the value \<open>a\<close> with the
  frequency 1 and the entropy 0. A column of nulls is the only kind that gives a result:
  no value and the entropy 0.
\<close>

lemma categorical_one_value:
  "compute_categorical_distribution [Some (str ''a'')] ''value'' = Inl TypeError"
  by (rule categorical_raises) (simp add: not_null_def)

lemma categorical_all_null:
  "compute_categorical_distribution [None :: ustring option, None] ''value''
     = Inr \<lparr>top_values = [], total_count = 0, entropy = 0\<rparr>"
  by (simp add: categorical_results not_null_def)

subsection \<open>The family id\<close>

lemma sort_remdups_set: "set ks1 = set ks2 \<Longrightarrow> sort (remdups ks1) = sort (remdups ks2)"
  by (metis sorted_list_of_set_sort_remdups)

lemma family_id_keys: "set ks1 = set ks2 \<Longrightarrow> family_id name ks1 = family_id name ks2"
  by (simp add: family_id_def family_string_def sort_remdups_set [of ks1 ks2])

lemma compute_family_id_spec:
  assumes "distinct (map fst tags)"
  shows "compute_family_id name tags = family_id name (map fst tags)"
proof -
  have keys: "(if tags = [] then [] else join [44] (sort (map fst tags)))
      = join [44] (sort (remdups (map fst tags)))"
    using assms by (cases "tags = []") (simp_all add: distinct_remdups_id)
  show ?thesis
    unfolding compute_family_id_def family_id_def family_string_def Let_def keys
    by (cases "encode_utf8 (name @ [124] @ join [44] (sort (remdups (map fst tags))))") simp_all
qed

lemma encode_utf8_ascii: "(\<And>c. c \<in> set s \<Longrightarrow> c < 128) \<Longrightarrow> encode_utf8 s = Inr (map of_nat s)"
  by (induction s) (simp_all add: utf8_char_def)

lemma finite_digests: "finite (range (\<lambda>d :: digest. (Inr (hexdigest d) :: exn + ustring)))"
  by simp

lemma split_first:
  "a \<notin> set xs \<Longrightarrow> a \<notin> set xs' \<Longrightarrow> xs @ a # ys = xs' @ a # ys' \<Longrightarrow> xs = xs' \<and> ys = ys'"
proof (induction xs arbitrary: xs')
  case Nil
  then show ?case by (cases xs') auto
next
  case (Cons x xs)
  then show ?case by (cases xs') auto
qed

lemma split_last:
  assumes "xs @ a # ys = xs' @ a # ys'" and "a \<notin> set ys" and "a \<notin> set ys'"
  shows "xs = xs' \<and> ys = ys'"
proof -
  from assms(1) have "rev (xs @ a # ys) = rev (xs' @ a # ys')" by simp
  then have "rev ys @ a # rev xs = rev ys' @ a # rev xs'" by simp
  moreover have "a \<notin> set (rev ys)" "a \<notin> set (rev ys')" using assms by simp_all
  ultimately have "rev ys = rev ys' \<and> rev xs = rev xs'"
    using split_first [of a "rev ys" "rev ys'" "rev xs" "rev xs'"] by blast
  then show ?thesis by simp
qed

lemma join_no_sep: "(\<And>k. k \<in> set ks \<Longrightarrow> a \<notin> set k) \<Longrightarrow> a \<noteq> 44 \<Longrightarrow> a \<notin> set (join [44] ks)"
  by (induction "[44::nat]" ks rule: join.induct) auto

lemma join_inj:
  assumes "\<And>k. k \<in> set ks \<Longrightarrow> plain_key k" and "\<And>k. k \<in> set ks' \<Longrightarrow> plain_key k"
    and "join [44] ks = join [44] ks'"
  shows "ks = ks'"
  using assms
proof (induction "[44::nat]" ks arbitrary: ks' rule: join.induct)
  case 1
  then show ?case
  proof (cases ks')
    case Nil
    then show ?thesis by simp
  next
    case (Cons y ys)
    with 1 have "plain_key y" by simp
    with 1 Cons show ?thesis by (cases ys) (auto simp: plain_key_def)
  qed
next
  case (2 x)
  then have x: "plain_key x" by simp
  show ?case
  proof (cases ks')
    case Nil
    with 2 x show ?thesis by (simp add: plain_key_def)
  next
    case (Cons y ys)
    show ?thesis
    proof (cases ys)
      case Nil
      with 2 Cons show ?thesis by simp
    next
      case (Cons z zs)
      with 2 \<open>ks' = y # ys\<close> have "x = y @ 44 # join [44] (z # zs)" by simp
      then have "44 \<in> set x" by simp
      with x show ?thesis by (simp add: plain_key_def)
    qed
  qed
next
  case (3 x y ys)
  then have x: "plain_key x" by simp
  show ?case
  proof (cases ks')
    case Nil
    with 3 x show ?thesis by (simp add: plain_key_def)
  next
    case (Cons u us)
    then have u: "plain_key u" using 3 by simp
    show ?thesis
    proof (cases us)
      case Nil
      with 3 \<open>ks' = u # us\<close> have "u = x @ 44 # join [44] (y # ys)" by simp
      then have "44 \<in> set u" by simp
      with u show ?thesis by (simp add: plain_key_def)
    next
      case (Cons v vs)
      with 3 \<open>ks' = u # us\<close>
      have eq: "x @ 44 # join [44] (y # ys) = u @ 44 # join [44] (v # vs)" by simp
      have "44 \<notin> set x" "44 \<notin> set u" using x u by (simp_all add: plain_key_def)
      with eq have "x = u \<and> join [44] (y # ys) = join [44] (v # vs)"
        using split_first [of 44 x u "join [44] (y # ys)" "join [44] (v # vs)"] by blast
      then have "x = u" and rest: "join [44] (y # ys) = join [44] (v # vs)" by simp_all
      have "y # ys = v # vs"
        using "3.hyps" [of "v # vs"] "3.prems" rest Cons \<open>ks' = u # us\<close> by simp
      with \<open>x = u\<close> Cons \<open>ks' = u # us\<close> show ?thesis by simp
    qed
  qed
qed

lemma family_string_inj:
  assumes "\<And>k. k \<in> set ks1 \<Longrightarrow> plain_key k" and "\<And>k. k \<in> set ks2 \<Longrightarrow> plain_key k"
    and "family_string n1 ks1 = family_string n2 ks2"
  shows "n1 = n2 \<and> set ks1 = set ks2"
proof -
  let ?K1 = "sort (remdups ks1)" and ?K2 = "sort (remdups ks2)"
  have ok1: "\<And>k. k \<in> set ?K1 \<Longrightarrow> plain_key k" and ok2: "\<And>k. k \<in> set ?K2 \<Longrightarrow> plain_key k"
    using assms(1,2) by simp_all
  have "124 \<notin> set (join [44] ?K1)"
    by (rule join_no_sep) (use ok1 in \<open>auto simp: plain_key_def\<close>)
  moreover have "124 \<notin> set (join [44] ?K2)"
    by (rule join_no_sep) (use ok2 in \<open>auto simp: plain_key_def\<close>)
  ultimately have "124 \<notin> set (join [44] ?K1)" "124 \<notin> set (join [44] ?K2)" by simp_all
  with assms(3) have n: "n1 = n2" and j: "join [44] ?K1 = join [44] ?K2"
    unfolding family_string_def using split_last [of n1 124 "join [44] ?K1" n2 "join [44] ?K2"]
    by simp_all
  from join_inj [OF ok1 ok2 j] have "set ?K1 = set ?K2" by simp
  then have "set ks1 = set ks2" by simp
  with n show ?thesis by simp
qed

text \<open>
  Claim C3, as far as it holds. The family id is the hexadecimal SHA-1 digest of the
  UTF-8 bytes of the metric name, a bar, and the sorted tag keys joined by commas (an
  empty dictionary giving the name and the bar). So two records with the same name and the
  same set of tag keys get the same id, whatever the tag values and the order of the tags.
  The other way round, different names or key sets give different strings to hash, but a
  digest of 160 bits cannot tell all strings apart.
\<close>

theorem family_id_by_name_and_keys:
  "(distinct (map fst tags) \<longrightarrow> compute_family_id name tags = family_id name (map fst tags))
   \<and> family_id name [] = map_sum id (\<lambda>bytes. hexdigest (sha1 bytes)) (encode_utf8 (name @ [124]))
   \<and> (set ks1 = set ks2 \<longrightarrow> family_id name ks1 = family_id name ks2)
   \<and> (distinct (map fst t1) \<and> distinct (map fst t2) \<and> set (map fst t1) = set (map fst t2)
        \<longrightarrow> compute_family_id name t1 = compute_family_id name t2)
   \<and> (list_all plain_key ks1 \<and> list_all plain_key ks2
        \<and> family_string n1 ks1 = family_string n2 ks2 \<longrightarrow> n1 = n2 \<and> set ks1 = set ks2)"
proof -
  have a: "distinct (map fst tags) \<longrightarrow> compute_family_id name tags = family_id name (map fst tags)"
    by (simp add: compute_family_id_spec)
  have b: "family_id name [] = map_sum id (\<lambda>bytes. hexdigest (sha1 bytes)) (encode_utf8 (name @ [124]))"
    by (simp add: family_id_def family_string_def)
  have c: "set ks1 = set ks2 \<longrightarrow> family_id name ks1 = family_id name ks2"
    by (rule impI) (rule family_id_keys)
  have d: "distinct (map fst t1) \<and> distinct (map fst t2) \<and> set (map fst t1) = set (map fst t2)
        \<longrightarrow> compute_family_id name t1 = compute_family_id name t2"
  proof (rule impI)
    assume h: "distinct (map fst t1) \<and> distinct (map fst t2) \<and> set (map fst t1) = set (map fst t2)"
    have "compute_family_id name t1 = family_id name (map fst t1)"
      using h by (intro compute_family_id_spec) blast
    also have "\<dots> = family_id name (map fst t2)"
      using h by (intro family_id_keys) blast
    also have "\<dots> = compute_family_id name t2"
      using h by (intro compute_family_id_spec [symmetric]) blast
    finally show "compute_family_id name t1 = compute_family_id name t2" .
  qed
  have e: "list_all plain_key ks1 \<and> list_all plain_key ks2
        \<and> family_string n1 ks1 = family_string n2 ks2 \<longrightarrow> n1 = n2 \<and> set ks1 = set ks2"
  proof (rule impI)
    assume h: "list_all plain_key ks1 \<and> list_all plain_key ks2
        \<and> family_string n1 ks1 = family_string n2 ks2"
    have k1: "\<And>k. k \<in> set ks1 \<Longrightarrow> plain_key k" using h by (simp add: list_all_iff)
    have k2: "\<And>k. k \<in> set ks2 \<Longrightarrow> plain_key k" using h by (simp add: list_all_iff)
    have s: "family_string n1 ks1 = family_string n2 ks2" using h by blast
    show "n1 = n2 \<and> set ks1 = set ks2" using k1 k2 s by (rule family_string_inj)
  qed
  from a b c d e show ?thesis by blast
qed

text \<open>
  The two lines of the specification, \<open>latency.ms 10 source=a host=x\<close> and
  \<open>latency.ms 20 source=b host=y\<close>, with a second tag in either order.
\<close>

theorem family_id_by_name_and_keys_witness:
  "compute_family_id (str ''latency.ms'') [(str ''host'', str ''x''), (str ''env'', str ''p'')]
     = compute_family_id (str ''latency.ms'') [(str ''env'', str ''q''), (str ''host'', str ''y'')]
   \<and> family_id (str ''latency.ms'') [str ''host'', str ''env'', str ''host'']
     = family_id (str ''latency.ms'') [str ''env'', str ''host'']
   \<and> family_string (str ''latency.ms'') [str ''host'', str ''env'', str ''host'']
     = str ''latency.ms|env,host''"
proof -
  let ?n = "str ''latency.ms''"
  let ?t1 = "[(str ''host'', str ''x''), (str ''env'', str ''p'')]"
  let ?t2 = "[(str ''env'', str ''q''), (str ''host'', str ''y'')]"
  let ?k1 = "[str ''host'', str ''env'', str ''host'']"
  let ?k2 = "[str ''env'', str ''host'']"
  note t = family_id_by_name_and_keys [of ?t1 ?n ?k1 ?k2 ?t1 ?t2 ?n ?n]
  have h1: "distinct (map fst ?t1)" "distinct (map fst ?t2)" by (simp_all add: str_def ord_def)
  have h2: "set (map fst ?t1) = set (map fst ?t2)" by auto
  have h3: "set ?k1 = set ?k2" by auto
  have h4: "list_all plain_key ?k1" "list_all plain_key ?k2"
    by (simp_all add: plain_key_def str_def ord_def)
  have h5: "family_string ?n ?k1 = str ''latency.ms|env,host''"
    by (simp add: family_string_def str_def ord_def)
  have h6: "family_string ?n ?k2 = str ''latency.ms|env,host''"
    by (simp add: family_string_def str_def ord_def)
  from t h1 h2 have a: "compute_family_id ?n ?t1 = compute_family_id ?n ?t2" by blast
  from t h3 have b: "family_id ?n ?k1 = family_id ?n ?k2" by blast
  have "family_string ?n ?k1 = family_string ?n ?k2" unfolding h5 h6 by (rule refl)
  with t h4 have "set ?k1 = set ?k2" by blast
  with a b h5 show ?thesis by blast
qed

text \<open>
  The claim's other direction, that records with the same id have the same name and the
  same tag keys, fails. A key that holds a comma reads as two keys: the dictionaries with
  the one key \<open>a,b\<close> and with the two keys \<open>a\<close> and \<open>b\<close> give the same string to
  hash. And with keys as \<open>TAG_PATTERN\<close> captures them it fails too: the names \<open>a\<close>,
  \<open>aa\<close>, \<open>aaa\<close>, ... with no tags are infinitely many families, and there are only
  finitely many digests.
\<close>

theorem family_id_collision:
  "compute_family_id (str ''m'') [(str ''a,b'', str ''x'')]
     = compute_family_id (str ''m'') [(str ''a'', str ''x''), (str ''b'', str ''y'')]
   \<and> \<not> (\<forall>n1 n2 t1 t2. compute_family_id n1 t1 = compute_family_id n2 t2
          \<longrightarrow> n1 = n2 \<and> fst ` set t1 = fst ` set t2)"
proof (rule conjI)
  show "compute_family_id (str ''m'') [(str ''a,b'', str ''x'')]
     = compute_family_id (str ''m'') [(str ''a'', str ''x''), (str ''b'', str ''y'')]"
    by (simp add: compute_family_id_def str_def ord_def)
  show "\<not> (\<forall>n1 n2 t1 t2. compute_family_id n1 t1 = compute_family_id n2 t2
          \<longrightarrow> n1 = n2 \<and> fst ` set t1 = fst ` set t2)"
  proof
    assume inj: "\<forall>n1 n2 t1 t2. compute_family_id n1 t1 = compute_family_id n2 t2
            \<longrightarrow> n1 = n2 \<and> fst ` set t1 = fst ` set t2"
    define f :: "nat \<Rightarrow> exn + ustring" where "f n = compute_family_id (replicate n 97) []" for n
    have "inj f"
    proof (rule injI)
      fix m n assume "f m = f n"
      with inj have "replicate m (97::nat) = replicate n 97" unfolding f_def by blast
      then have "length (replicate m (97::nat)) = length (replicate n (97::nat))" by simp
      then show "m = n" by simp
    qed
    have "f n \<in> range (\<lambda>d :: digest. (Inr (hexdigest d) :: exn + ustring))" for n
    proof -
      have "encode_utf8 (replicate n 97 @ [124]) = Inr (map of_nat (replicate n 97 @ [124]))"
        by (rule encode_utf8_ascii) auto
      then show ?thesis by (simp add: f_def compute_family_id_def)
    qed
    then have "range f \<subseteq> range (\<lambda>d :: digest. (Inr (hexdigest d) :: exn + ustring))" by blast
    then have "finite (range f)" using finite_digests by (rule finite_subset)
    then have "finite (UNIV :: nat set)" using \<open>inj f\<close> by (rule finite_imageD)
    then show False by simp
  qed
qed

end
